theory Spec2Isabelle
  imports Main "HOL-Library.Word"
begin

unbundle bit_operations_syntax

section \<open>Values of the JavaScript runtime\<close>

text \<open>
  A JavaScript string is a \<open>string\<close>, each character one code unit (the characters of
  HOL are the code units up to 255; how a string is encoded into bytes is left to the
  libraries below). A Buffer or a crypto-js WordArray is a list of bytes. A function that
  may throw returns a sum: \<open>Inl msg\<close> stands for \<^verbatim>\<open>throw new Error(msg)\<close>, \<open>Inr v\<close> for
  the returned value. A field of a Mongoose document that may be \<^verbatim>\<open>undefined\<close> is an
  option.
\<close>

type_synonym bytes = "8 word list"

type_synonym 'a result = "string + 'a"

text \<open>
  Random bytes come from an explicit tape, so that every call of the source is a
  function of its arguments and of the randomness it consumes. Tapes named \<open>g\<close> feed
  \<^verbatim>\<open>CryptoJS.lib.WordArray.random\<close>, tapes named \<open>h\<close> feed the generator inside Node's
  \<^verbatim>\<open>crypto\<close>.
\<close>

type_synonym rng = "nat \<Rightarrow> 8 word"

definition WordArray_random :: "nat \<Rightarrow> rng \<Rightarrow> bytes" where
  "WordArray_random n g = map g [0..<n]"

definition constant_tape :: "8 word \<Rightarrow> rng" where
  "constant_tape b = (\<lambda>i. b)"

definition rng_skip :: "nat \<Rightarrow> rng \<Rightarrow> rng" where
  "rng_skip n g = (\<lambda>i. g (n + i))"

text \<open>JavaScript truthiness of an optional string: \<^verbatim>\<open>undefined\<close> and \<^verbatim>\<open>''\<close> are falsy.\<close>

definition truthy :: "string option \<Rightarrow> bool" where
  "truthy v = (case v of None \<Rightarrow> False | Some s \<Rightarrow> s \<noteq> [])"

section \<open>The external libraries\<close>

text \<open>
  \<^verbatim>\<open>crypto-js\<close>, Node's \<^verbatim>\<open>crypto\<close> module and \<^verbatim>\<open>Buffer\<close> are dependencies of the
  repository, not part of it. Their entry points are the fields of one record that every
  function of the repository receives; the repository's own code is modelled over it.
  A library call that can throw returns a \<open>result\<close>.
\<close>

record crypto_lib =
  cjs_utf8_parse :: "string \<Rightarrow> bytes result"
  cjs_utf8_stringify :: "bytes \<Rightarrow> string result"
  cjs_hex_stringify :: "bytes \<Rightarrow> string"
  cjs_hex_parse :: "string \<Rightarrow> bytes"
  cjs_base64_stringify :: "bytes \<Rightarrow> string"
  cjs_base64_parse :: "string \<Rightarrow> bytes"
  cjs_evp_kdf :: "string \<Rightarrow> bytes \<Rightarrow> bytes \<times> bytes"
  cjs_aes_cbc_encrypt :: "bytes \<Rightarrow> bytes \<Rightarrow> bytes \<Rightarrow> bytes"
  cjs_aes_cbc_decrypt :: "bytes \<Rightarrow> bytes \<Rightarrow> bytes \<Rightarrow> bytes"
  buffer_from_utf8 :: "string \<Rightarrow> bytes"
  buffer_to_utf8 :: "bytes \<Rightarrow> string"
  buffer_from_base64 :: "string \<Rightarrow> bytes"
  buffer_to_base64 :: "bytes \<Rightarrow> string"
  generateKeyPairSync :: "rng \<Rightarrow> (string \<times> string) result"
  publicEncrypt :: "string \<Rightarrow> bytes \<Rightarrow> rng \<Rightarrow> bytes result"
  privateDecrypt :: "string \<Rightarrow> bytes \<Rightarrow> bytes result"
  crypto_sign :: "bytes \<Rightarrow> string \<Rightarrow> bytes result"
  crypto_verify :: "bytes \<Rightarrow> string \<Rightarrow> bytes \<Rightarrow> bool result"
  sha512_hex :: "bytes \<Rightarrow> string"
  toISOString :: "nat \<Rightarrow> string"

subsection \<open>crypto-js: the password-based cipher\<close>

text \<open>
  Modelled from the spec: the source of \<^verbatim>\<open>crypto-js\<close> is not part of the repository,
  only its callers \<open>encryptAES\<close> and \<open>decryptAES\<close> are. Claim C10 describes what the
  library does with a key that is a string, and the definitions of this subsection follow
  that description and the documented behaviour of the library.

  \<^verbatim>\<open>CryptoJS.AES.encrypt(message, key, cfg)\<close> selects its strategy on the type of
  \<open>key\<close>. Every call of the repository passes a string, so the password-based strategy
  runs: it draws an 8-byte salt, derives the cipher key \<^emph>\<open>and the IV\<close> from the password
  and the salt (\<open>cjs_evp_kdf\<close>), stores the derived IV in the configuration in place of
  the caller's, and encrypts the UTF-8 bytes of the message (\<open>cjs_aes_cbc_encrypt\<close>: CBC
  with PKCS#7 padding). The result prints in the OpenSSL format, the Base64 of
  \<^verbatim>\<open>Salted__\<close>, the salt and the ciphertext. Decryption parses that format, derives key
  and IV from the password and the parsed salt (a fresh random salt when the input carries
  none), again overwrites the configured IV, and decrypts; PKCS#7 unpadding does not
  validate, so \<open>cjs_aes_cbc_decrypt\<close> never throws, and the only step of a decryption that
  can throw is the UTF-8 decoding of the result.
\<close>

record cjs_cfg =
  cfg_iv :: bytes

record cipher_params =
  cp_ciphertext :: bytes
  cp_salt :: "bytes option"

definition salted_magic :: bytes where
  "salted_magic = [0x53, 0x61, 0x6c, 0x74, 0x65, 0x64, 0x5f, 0x5f]"

definition openssl_stringify :: "crypto_lib \<Rightarrow> cipher_params \<Rightarrow> string" where
  "openssl_stringify L cp =
     cjs_base64_stringify L
       ((case cp_salt cp of None \<Rightarrow> [] | Some s \<Rightarrow> salted_magic @ s) @ cp_ciphertext cp)"

definition openssl_parse :: "crypto_lib \<Rightarrow> string \<Rightarrow> cipher_params" where
  "openssl_parse L str =
     (let bs = cjs_base64_parse L str in
      if take 8 bs = salted_magic
      then \<lparr>cp_ciphertext = drop 16 bs, cp_salt = Some (take 8 (drop 8 bs))\<rparr>
      else \<lparr>cp_ciphertext = bs, cp_salt = None\<rparr>)"

definition SerializableCipher_encrypt ::
  "crypto_lib \<Rightarrow> string \<Rightarrow> bytes \<Rightarrow> cjs_cfg \<Rightarrow> cipher_params result" where
  "SerializableCipher_encrypt L message key cfg =
     (case cjs_utf8_parse L message of
        Inl e \<Rightarrow> Inl e
      | Inr m \<Rightarrow> Inr \<lparr>cp_ciphertext = cjs_aes_cbc_encrypt L key (cfg_iv cfg) m, cp_salt = None\<rparr>)"

definition SerializableCipher_decrypt ::
  "crypto_lib \<Rightarrow> cipher_params \<Rightarrow> bytes \<Rightarrow> cjs_cfg \<Rightarrow> bytes" where
  "SerializableCipher_decrypt L cp key cfg =
     cjs_aes_cbc_decrypt L key (cfg_iv cfg) (cp_ciphertext cp)"

definition CryptoJS_AES_encrypt ::
  "crypto_lib \<Rightarrow> string \<Rightarrow> string \<Rightarrow> cjs_cfg \<Rightarrow> rng \<Rightarrow> cipher_params result" where
  "CryptoJS_AES_encrypt L message password cfg g =
     (let salt = WordArray_random 8 g;
          derived = cjs_evp_kdf L password salt;
          cfg' = cfg\<lparr>cfg_iv := snd derived\<rparr>
      in case SerializableCipher_encrypt L message (fst derived) cfg' of
           Inl e \<Rightarrow> Inl e
         | Inr cp \<Rightarrow> Inr (cp\<lparr>cp_salt := Some salt\<rparr>))"

definition CryptoJS_AES_decrypt ::
  "crypto_lib \<Rightarrow> string \<Rightarrow> string \<Rightarrow> cjs_cfg \<Rightarrow> rng \<Rightarrow> bytes" where
  "CryptoJS_AES_decrypt L ciphertext password cfg g =
     (let cp = openssl_parse L ciphertext;
          salt = (case cp_salt cp of None \<Rightarrow> WordArray_random 8 g | Some s \<Rightarrow> s);
          derived = cjs_evp_kdf L password salt;
          cfg' = cfg\<lparr>cfg_iv := snd derived\<rparr>
      in SerializableCipher_decrypt L cp (fst derived) cfg')"

section \<open>backend/utils/encryption.js\<close>

text \<open>\<^verbatim>\<open>process.env.AES_SECRET_KEY || 'default_32_char_secret_key_here!'\<close>\<close>

definition AES_SECRET :: "string option \<Rightarrow> string" where
  "AES_SECRET env_key =
     (case env_key of
        None \<Rightarrow> ''default_32_char_secret_key_here!''
      | Some s \<Rightarrow> if s = [] then ''default_32_char_secret_key_here!'' else s)"

record aes_out =
  encryptedData :: string
  iv :: string

definition encryptAES :: "crypto_lib \<Rightarrow> string \<Rightarrow> string \<Rightarrow> rng \<Rightarrow> aes_out result" where
  "encryptAES L plainText secretKey g =
     (let iv0 = WordArray_random 16 g in
      case CryptoJS_AES_encrypt L plainText secretKey \<lparr>cfg_iv = iv0\<rparr> (rng_skip 16 g) of
        Inl e \<Rightarrow> Inl (''Encryption failed: '' @ e)
      | Inr encrypted \<Rightarrow>
          Inr \<lparr>encryptedData = openssl_stringify L encrypted, iv = cjs_hex_stringify L iv0\<rparr>)"

definition decryptAES :: "crypto_lib \<Rightarrow> string \<Rightarrow> string \<Rightarrow> string \<Rightarrow> rng \<Rightarrow> string result" where
  "decryptAES L ciphertext iv_hex secretKey g =
     (let ivWordArray = cjs_hex_parse L iv_hex;
          decrypted = CryptoJS_AES_decrypt L ciphertext secretKey \<lparr>cfg_iv = ivWordArray\<rparr> g
      in case cjs_utf8_stringify L decrypted of
           Inl e \<Rightarrow> Inl (''Decryption failed: '' @ e)
         | Inr s \<Rightarrow> Inr s)"

definition generateRSAKeyPair :: "crypto_lib \<Rightarrow> rng \<Rightarrow> (string \<times> string) result" where
  "generateRSAKeyPair L g =
     (case generateKeyPairSync L g of
        Inl e \<Rightarrow> Inl (''RSA key generation failed: '' @ e)
      | Inr kp \<Rightarrow> Inr kp)"

definition encryptRSA :: "crypto_lib \<Rightarrow> string \<Rightarrow> string \<Rightarrow> rng \<Rightarrow> string result" where
  "encryptRSA L data pubKey g =
     (let buffer = buffer_from_utf8 L data in
      case publicEncrypt L pubKey buffer g of
        Inl e \<Rightarrow> Inl (''RSA encryption failed: '' @ e)
      | Inr c \<Rightarrow> Inr (buffer_to_base64 L c))"

definition decryptRSA :: "crypto_lib \<Rightarrow> string \<Rightarrow> string \<Rightarrow> string result" where
  "decryptRSA L encData privKey =
     (let buffer = buffer_from_base64 L encData in
      case privateDecrypt L privKey buffer of
        Inl e \<Rightarrow> Inl (''RSA decryption failed: '' @ e)
      | Inr m \<Rightarrow> Inr (buffer_to_utf8 L m))"

record hybrid_out = aes_out +
  encryptedKey :: string

definition hybridEncrypt ::
  "crypto_lib \<Rightarrow> string \<Rightarrow> string \<Rightarrow> rng \<Rightarrow> rng \<Rightarrow> hybrid_out result" where
  "hybridEncrypt L data pubKey g h =
     (let aesKey = cjs_hex_stringify L (WordArray_random 32 g) in
      case encryptAES L data aesKey (rng_skip 32 g) of
        Inl e \<Rightarrow> Inl (''Hybrid encryption failed: '' @ e)
      | Inr a \<Rightarrow>
          (case encryptRSA L aesKey pubKey h of
             Inl e \<Rightarrow> Inl (''Hybrid encryption failed: '' @ e)
           | Inr k \<Rightarrow> Inr \<lparr>encryptedData = encryptedData a, iv = iv a, encryptedKey = k\<rparr>))"

definition hybridDecrypt ::
  "crypto_lib \<Rightarrow> string \<Rightarrow> string \<Rightarrow> string \<Rightarrow> string \<Rightarrow> rng \<Rightarrow> string result" where
  "hybridDecrypt L encData encKey iv_hex privKey g =
     (case decryptRSA L encKey privKey of
        Inl e \<Rightarrow> Inl (''Hybrid decryption failed: '' @ e)
      | Inr aesKey \<Rightarrow>
          (case decryptAES L encData iv_hex aesKey g of
             Inl e \<Rightarrow> Inl (''Hybrid decryption failed: '' @ e)
           | Inr s \<Rightarrow> Inr s))"

text \<open>
  \<^verbatim>\<open>Buffer.isBuffer(data) ? data : Buffer.from(String(data))\<close>: the callers pass
  either a Buffer or a string.
\<close>

datatype js_data = Buf bytes | Str string

definition to_buffer :: "crypto_lib \<Rightarrow> js_data \<Rightarrow> bytes" where
  "to_buffer L d = (case d of Buf b \<Rightarrow> b | Str s \<Rightarrow> buffer_from_utf8 L s)"

definition createDigitalSignature :: "crypto_lib \<Rightarrow> js_data \<Rightarrow> string \<Rightarrow> string result" where
  "createDigitalSignature L data privKey =
     (case crypto_sign L (to_buffer L data) privKey of
        Inl e \<Rightarrow> Inl (''Digital signature creation failed: '' @ e)
      | Inr s \<Rightarrow> Inr (buffer_to_base64 L s))"

text \<open>
  The body of the \<^verbatim>\<open>try\<close> block of \<^verbatim>\<open>verifyDigitalSignature\<close>. The callers pass
  fields of stored documents: a signature that is \<^verbatim>\<open>undefined\<close> makes \<^verbatim>\<open>Buffer.from\<close>
  throw a TypeError, a key that is \<^verbatim>\<open>undefined\<close> makes \<^verbatim>\<open>crypto.verify\<close> throw one.
\<close>

definition verifyDigitalSignature_try ::
  "crypto_lib \<Rightarrow> js_data \<Rightarrow> string option \<Rightarrow> string option \<Rightarrow> bool result" where
  "verifyDigitalSignature_try L data signature pubKey =
     (let buffer = to_buffer L data in
      case signature of
        None \<Rightarrow> Inl ''The first argument must be of type string or an instance of Buffer''
      | Some s \<Rightarrow>
          (case pubKey of
             None \<Rightarrow> Inl ''The key argument must be of type string or an instance of Buffer''
           | Some k \<Rightarrow> crypto_verify L buffer k (buffer_from_base64 L s)))"

text \<open>The \<^verbatim>\<open>catch\<close> block logs the error and returns \<^verbatim>\<open>false\<close>.\<close>

definition verifyDigitalSignature ::
  "crypto_lib \<Rightarrow> js_data \<Rightarrow> string option \<Rightarrow> string option \<Rightarrow> bool result" where
  "verifyDigitalSignature L data signature pubKey =
     (case verifyDigitalSignature_try L data signature pubKey of
        Inl e \<Rightarrow> Inr False
      | Inr b \<Rightarrow> Inr b)"


definition createHashSHA512 :: "crypto_lib \<Rightarrow> js_data \<Rightarrow> string" where
  "createHashSHA512 L data = sha512_hex L (to_buffer L data)"

section \<open>backend/utils/encoding.js\<close>

text \<open>
  \<^verbatim>\<open>JSON.stringify\<close> of a string: the quotation mark, the backslash and the control
  characters are escaped. A non-negative integer prints in decimal.
\<close>

definition hexdigit :: "nat \<Rightarrow> char" where
  "hexdigit n = ''0123456789abcdef'' ! (n mod 16)"

definition json_escape_char :: "char \<Rightarrow> string" where
  "json_escape_char c =
     (if c = CHR 0x22 then [CHR 0x5C, CHR 0x22]
      else if c = CHR 0x5C then [CHR 0x5C, CHR 0x5C]
      else if c = CHR 0x08 then [CHR 0x5C, CHR ''b'']
      else if c = CHR 0x0C then [CHR 0x5C, CHR ''f'']
      else if c = CHR 0x0A then [CHR 0x5C, CHR ''n'']
      else if c = CHR 0x0D then [CHR 0x5C, CHR ''r'']
      else if c = CHR 0x09 then [CHR 0x5C, CHR ''t'']
      else if (of_char c :: nat) < 32
        then [CHR 0x5C, CHR ''u'', CHR ''0'', CHR ''0'',
              hexdigit (of_char c div 16), hexdigit (of_char c mod 16)]
      else [c])"

definition json_quote :: "string \<Rightarrow> string" where
  "json_quote s = [CHR 0x22] @ concat (map json_escape_char s) @ [CHR 0x22]"

function dec_digits :: "nat \<Rightarrow> string" where
  "dec_digits n =
     (if n < 10 then [hexdigit n] else dec_digits (n div 10) @ [hexdigit (n mod 10)])"
  by pat_completeness auto
termination
  by (relation "measure (\<lambda>n. n)") auto

declare dec_digits.simps [simp del]

definition json_member :: "string \<Rightarrow> string \<Rightarrow> string" where
  "json_member k v = json_quote k @ '':'' @ v"

text \<open>
  The argument of \<^verbatim>\<open>generateVerifiedCertificateData\<close>. The function reads four
  properties of it: \<^verbatim>\<open>id\<close>, \<^verbatim>\<open>application_number\<close>, \<^verbatim>\<open>applicationNumber\<close> and
  \<^verbatim>\<open>student_id\<close>; the two spellings of the application number are two properties.
\<close>

record application_data =
  d_id :: string
  d_application_number :: "string option"
  d_applicationNumber :: "string option"
  d_student_id :: string

text \<open>
  \<^verbatim>\<open>JSON.stringify(payload)\<close> for the payload \<^verbatim>\<open>{applicationId, applicationNumber,
  studentId, timestamp}\<close>: a property whose value is \<^verbatim>\<open>undefined\<close> is left out.
\<close>

definition payload_json :: "application_data \<Rightarrow> nat \<Rightarrow> string" where
  "payload_json a timestamp =
     ''{'' @ json_member ''applicationId'' (json_quote (d_id a))
     @ (case d_application_number a of
          None \<Rightarrow> []
        | Some n \<Rightarrow> '','' @ json_member ''applicationNumber'' (json_quote n))
     @ '','' @ json_member ''studentId'' (json_quote (d_student_id a))
     @ '','' @ json_member ''timestamp'' (dec_digits timestamp)
     @ ''}''"

text \<open>A template literal prints \<^verbatim>\<open>undefined\<close> as the word.\<close>

definition template :: "string option \<Rightarrow> string" where
  "template v = (case v of None \<Rightarrow> ''undefined'' | Some s \<Rightarrow> s)"

fun join_lines :: "string list \<Rightarrow> string" where
  "join_lines [] = []"
| "join_lines [l] = l"
| "join_lines (l # ls) = l @ [CHR 0x0A] @ join_lines ls"

text \<open>
  \<^verbatim>\<open>generateVerifiedCertificateData\<close>, given the value \<^verbatim>\<open>Date.now()\<close> returned and
  \<^verbatim>\<open>process.env.FRONTEND_URL\<close>. Nothing in its body throws on these arguments, so it
  always returns its pair.
\<close>

record certificate =
  verificationCode_of :: string
  certificateText_of :: string

definition generateVerifiedCertificateData ::
  "crypto_lib \<Rightarrow> string option \<Rightarrow> application_data \<Rightarrow> nat \<Rightarrow> certificate" where
  "generateVerifiedCertificateData L env_frontend_url applicationData timestamp =
     (let verificationData = payload_json applicationData timestamp;
          verificationHash = take 16 (sha512_hex L (buffer_from_utf8 L verificationData));
          verificationCode =
            ''SVS-VERIFIED-'' @ template (d_applicationNumber applicationData)
            @ ''-'' @ verificationHash;
          frontendUrl = (if truthy env_frontend_url then template env_frontend_url
                         else ''http://localhost:3000'');
          verifyUrl = frontendUrl @ ''/verify/'' @ verificationCode;
          certificateText = join_lines
            [''Scholarship Verification Certificate'',
             ''Application: '' @ template (d_applicationNumber applicationData),
             ''Student ID: '' @ d_student_id applicationData,
             ''Verified At: '' @ toISOString L timestamp,
             ''Verification Code: '' @ verificationCode,
             ''Verify URL: '' @ verifyUrl]
      in \<lparr>verificationCode_of = verificationCode, certificateText_of = certificateText\<rparr>)"

section \<open>backend/routes: key management\<close>

text \<open>
  A user document, with the two fields the key management reads and writes, and the
  collection of users by id. \<^verbatim>\<open>user.save()\<close> writes the document back.
\<close>

record user =
  user_id :: string
  publicKey :: "string option"
  privateKey :: "string option"

type_synonym users = "string \<rightharpoonup> user"

definition User_findById :: "users \<Rightarrow> string \<Rightarrow> user option" where
  "User_findById db uid = db uid"

definition user_save :: "users \<Rightarrow> user \<Rightarrow> users" where
  "user_save db u = db(user_id u \<mapsto> u)"

text \<open>\<^verbatim>\<open>JSON.stringify({ data: encryptedPrivateKey, iv })\<close>\<close>

definition key_blob_json :: "string \<Rightarrow> string \<Rightarrow> string" where
  "key_blob_json d v =
     ''{'' @ json_member ''data'' (json_quote d) @ '','' @ json_member ''iv'' (json_quote v) @ ''}''"

text \<open>
  \<^verbatim>\<open>ensureUserKeys\<close> (the same function in routes/documents.js and in the application
  routes). It receives the document that \<^verbatim>\<open>User.findById\<close> returned, \<^verbatim>\<open>null\<close> when
  there is none, and returns the collection after the call with the document.
\<close>

definition ensureUserKeys ::
  "crypto_lib \<Rightarrow> string option \<Rightarrow> users \<Rightarrow> user option \<Rightarrow> rng \<Rightarrow> rng \<Rightarrow> (users \<times> user) result" where
  "ensureUserKeys L env_key db usr g h =
     (case (case usr of None \<Rightarrow> None
            | Some u \<Rightarrow> if truthy (publicKey u) \<and> truthy (privateKey u) then Some u else None) of
        Some u \<Rightarrow> Inr (db, u)
      | None \<Rightarrow>
          (case generateRSAKeyPair L h of
             Inl e \<Rightarrow> Inl e
           | Inr kp \<Rightarrow>
               (case encryptAES L (snd kp) (AES_SECRET env_key) g of
                  Inl e \<Rightarrow> Inl e
                | Inr a \<Rightarrow>
                    (case usr of
                       None \<Rightarrow> Inl ''Cannot set properties of null''
                     | Some u \<Rightarrow>
                         (let u' = u\<lparr>publicKey := Some (fst kp),
                                     privateKey := Some (key_blob_json (encryptedData a) (iv a))\<rparr>
                          in Inr (user_save db u', u'))))))"

text \<open>
  Every caller writes \<^verbatim>\<open>ensureUserKeys(await User.findById(id))\<close>: a request first
  awaits the document, then, in a later turn of the event loop, runs \<^verbatim>\<open>ensureUserKeys\<close>
  on the document it received. Requests that are in flight together interleave at these
  two points. A schedule names, turn by turn, the request that runs next; request \<open>i\<close>
  draws its randomness from the \<open>i\<close>-th pair of tapes.
\<close>

datatype pending = Awaiting_find | Awaiting_ensure "user option" | Returned "user result"

definition request_step ::
  "crypto_lib \<Rightarrow> string option \<Rightarrow> string \<Rightarrow> rng \<times> rng \<Rightarrow> users \<times> pending \<Rightarrow> users \<times> pending" where
  "request_step L env_key uid tapes st =
     (case snd st of
        Awaiting_find \<Rightarrow> (fst st, Awaiting_ensure (User_findById (fst st) uid))
      | Awaiting_ensure usr \<Rightarrow>
          (case ensureUserKeys L env_key (fst st) usr (fst tapes) (snd tapes) of
             Inl e \<Rightarrow> (fst st, Returned (Inl e))
           | Inr r \<Rightarrow> (fst r, Returned (Inr (snd r))))
      | Returned r \<Rightarrow> st)"

fun run_requests ::
  "crypto_lib \<Rightarrow> string option \<Rightarrow> string \<Rightarrow> (rng \<times> rng) list \<Rightarrow> users \<times> pending list \<Rightarrow> nat list
     \<Rightarrow> users \<times> pending list" where
  "run_requests L env_key uid tapes st [] = st"
| "run_requests L env_key uid tapes st (i # schedule) =
     (if i < length (snd st) \<and> i < length tapes
      then (let r = request_step L env_key uid (tapes ! i) (fst st, snd st ! i)
            in run_requests L env_key uid tapes (fst r, (snd st)[i := snd r]) schedule)
      else run_requests L env_key uid tapes st schedule)"

section \<open>backend/routes/documents.js: the integrity check\<close>

record document =
  fileName :: string
  documentHash :: "string option"
  digitalSignature :: "string option"

text \<open>
  Lines 214 to 216 and 269 to 271: the hash of the decrypted file is compared with the
  stored hash, and only then is the stored signature verified over it.
\<close>

definition integrityValid :: "crypto_lib \<Rightarrow> bytes \<Rightarrow> document \<Rightarrow> user \<Rightarrow> bool result" where
  "integrityValid L fileBuffer doc owner =
     (let currentHash = createHashSHA512 L (Buf fileBuffer) in
      if documentHash doc = Some currentHash
      then verifyDigitalSignature L (Str currentHash) (digitalSignature doc) (publicKey owner)
      else Inr False)"

datatype response =
    Json nat string
  | Download bytes string string
  | Verification bool "string option" string "string option" bool

text \<open>
  \<^verbatim>\<open>GET /documents/:id\<close> from line 214 on, given the decrypted file: the response is
  the JSON error of status 500, or the file with its name and the
  \<^verbatim>\<open>X-Integrity-Verified\<close> header.
\<close>

definition get_document_respond :: "crypto_lib \<Rightarrow> bytes \<Rightarrow> document \<Rightarrow> user \<Rightarrow> response" where
  "get_document_respond L fileBuffer doc owner =
     (case integrityValid L fileBuffer doc owner of
        Inl e \<Rightarrow> Json 500 ''Failed to retrieve document''
      | Inr ok \<Rightarrow>
          if \<not> ok
          then Json 500 ''Document integrity check failed - file may have been tampered''
          else Download fileBuffer (fileName doc) (if ok then ''true'' else ''false''))"

text \<open>
  \<^verbatim>\<open>GET /documents/:id/verify\<close> from line 269 on: the report carries
  \<^verbatim>\<open>signatureValid\<close>, \<^verbatim>\<open>documentHash\<close>, \<^verbatim>\<open>currentHash\<close>, \<^verbatim>\<open>signature\<close> and
  \<^verbatim>\<open>isTampered\<close>.
\<close>

definition verify_document_respond :: "crypto_lib \<Rightarrow> bytes \<Rightarrow> document \<Rightarrow> user \<Rightarrow> response" where
  "verify_document_respond L fileBuffer doc owner =
     (case integrityValid L fileBuffer doc owner of
        Inl e \<Rightarrow> Json 500 ''Failed to verify document''
      | Inr signatureValid \<Rightarrow>
          Verification signatureValid (documentHash doc)
            (createHashSHA512 L (Buf fileBuffer)) (digitalSignature doc) (\<not> signatureValid))"

text \<open>What a response says about tampering, if anything.\<close>

definition reports_tampered :: "response \<Rightarrow> bool" where
  "reports_tampered r =
     (case r of
        Json st msg \<Rightarrow>
          msg = ''Document integrity check failed - file may have been tampered''
      | Download b n x \<Rightarrow> False
      | Verification sv dh ch sg t \<Rightarrow> t)"

text \<open>
  The composite operation of the specification, in its words:
  \<^verbatim>\<open>checkIntegrity(currentBytes, storedDigest, storedSignature, publicKey)\<close> yields
  \<^verbatim>\<open>digestMatches\<close>, \<^verbatim>\<open>signatureValid\<close> and
  \<^verbatim>\<open>tampered = NOT(digestMatches AND signatureValid)\<close>, two independent checks: the
  first compares the digest of the current bytes with the stored digest, the second
  verifies the stored signature over the stored digest under the owner's public key.
\<close>

definition digestMatches :: "crypto_lib \<Rightarrow> bytes \<Rightarrow> document \<Rightarrow> bool" where
  "digestMatches L currentBytes doc =
     (documentHash doc = Some (createHashSHA512 L (Buf currentBytes)))"

definition signatureValid :: "crypto_lib \<Rightarrow> document \<Rightarrow> user \<Rightarrow> bool" where
  "signatureValid L doc owner =
     (case documentHash doc of
        None \<Rightarrow> False
      | Some storedDigest \<Rightarrow>
          verifyDigitalSignature L (Str storedDigest) (digitalSignature doc) (publicKey owner)
          = Inr True)"

definition checkIntegrity_tampered :: "bool \<Rightarrow> bool \<Rightarrow> bool" where
  "checkIntegrity_tampered dm sv = (\<not> (dm \<and> sv))"

section \<open>backend/routes: verification codes of applications\<close>

text \<open>
  An application document with the fields the status route and the public lookup touch.
  The collection is a list in its natural order, which is the order \<^verbatim>\<open>findOne\<close> scans.
\<close>

record application =
  app_id :: string
  applicationNumber :: "string option"
  userId :: string
  status :: string
  verificationCode :: "string option"
  verifiedVerificationCode :: "string option"
  verifiedCertificateText :: "string option"
  verifiedAt :: "nat option"
  reviewedBy :: "string option"
  reviewedAt :: "nat option"
  reviewNotes :: "string option"

type_synonym applications = "application list"

definition Application_findById :: "applications \<Rightarrow> string \<Rightarrow> application option" where
  "Application_findById db i = find (\<lambda>a. app_id a = i) db"

definition application_save :: "applications \<Rightarrow> application \<Rightarrow> applications" where
  "application_save db a = map (\<lambda>x. if app_id x = app_id a then a else x) db"

text \<open>
  The call of \<^verbatim>\<open>generateVerifiedCertificateData\<close> in \<^verbatim>\<open>PUT /applications/:id/status\<close>:
  the route passes \<^verbatim>\<open>id\<close>, \<^verbatim>\<open>applicationNumber\<close> and \<^verbatim>\<open>student_id\<close>, and no
  \<^verbatim>\<open>application_number\<close>.
\<close>

definition issue_certificate ::
  "crypto_lib \<Rightarrow> string option \<Rightarrow> application \<Rightarrow> nat \<Rightarrow> certificate" where
  "issue_certificate L env_frontend_url a now =
     generateVerifiedCertificateData L env_frontend_url
       \<lparr>d_id = app_id a, d_application_number = None,
        d_applicationNumber = applicationNumber a, d_student_id = userId a\<rparr> now"

text \<open>
  The structured record of the specification, in its words: application id, student id
  and timestamp, and nothing else, serialised as JSON.
\<close>

definition certificate_record_json :: "string \<Rightarrow> string \<Rightarrow> nat \<Rightarrow> string" where
  "certificate_record_json applicationId studentId timestamp =
     ''{'' @ json_member ''applicationId'' (json_quote applicationId)
     @ '','' @ json_member ''studentId'' (json_quote studentId)
     @ '','' @ json_member ''timestamp'' (dec_digits timestamp)
     @ ''}''"

text \<open>
  \<^verbatim>\<open>PUT /applications/:id/status\<close>. \<open>now\<close> is the clock of the request. The handler
  returns its response and the collection after \<^verbatim>\<open>application.save()\<close>.
\<close>

definition put_application_status ::
  "crypto_lib \<Rightarrow> string option \<Rightarrow> applications \<Rightarrow> string \<Rightarrow> string \<Rightarrow> string option \<Rightarrow> string
     \<Rightarrow> nat \<Rightarrow> response \<times> applications" where
  "put_application_status L env_frontend_url db i new_status comments reviewer now =
     (if new_status \<notin> set [''under_review'', ''verified'', ''approved'', ''rejected'']
      then (Json 400 ''Invalid status'', db)
      else case Application_findById db i of
        None \<Rightarrow> (Json 404 ''Application not found'', db)
      | Some a \<Rightarrow>
          (let a1 = (if new_status = ''verified''
                        \<or> (new_status = ''approved'' \<and> \<not> truthy (verifiedVerificationCode a))
                     then (let c = issue_certificate L env_frontend_url a now
                           in a\<lparr>verifiedVerificationCode := Some (verificationCode_of c),
                                verifiedCertificateText := Some (certificateText_of c),
                                verifiedAt := Some now\<rparr>)
                     else a);
               a2 = a1\<lparr>status := new_status, reviewedBy := Some reviewer,
                       reviewedAt := Some now\<rparr>;
               a3 = (if truthy comments then a2\<lparr>reviewNotes := comments\<rparr> else a2)
           in (Json 200 ''Status updated'', application_save db a3)))"

text \<open>
  \<^verbatim>\<open>GET /applications/verify/:code\<close>: the first application whose
  \<^verbatim>\<open>verificationCode\<close> or \<^verbatim>\<open>verifiedVerificationCode\<close> is the code.
\<close>

definition Application_findOne_code :: "applications \<Rightarrow> string \<Rightarrow> application option" where
  "Application_findOne_code db code =
     find (\<lambda>a. verificationCode a = Some code \<or> verifiedVerificationCode a = Some code) db"

datatype code_lookup =
    Invalid_verification_code
  | Application_found "string option" string "string option" bool

definition get_verify_code :: "applications \<Rightarrow> string \<Rightarrow> code_lookup" where
  "get_verify_code db code =
     (case Application_findOne_code db code of
        None \<Rightarrow> Invalid_verification_code
      | Some a \<Rightarrow>
          Application_found (applicationNumber a) (status a) (verificationCode a)
            (status a = ''verified'' \<and> verifiedVerificationCode a = Some code))"

text \<open>
  \<^verbatim>\<open>GET /applications/:id\<close> shows the student \<^verbatim>\<open>verified_verification_code\<close>, the
  current value of the field.
\<close>

definition advertised_code :: "applications \<Rightarrow> string \<Rightarrow> string option" where
  "advertised_code db i =
     (case Application_findById db i of None \<Rightarrow> None | Some a \<Rightarrow> verifiedVerificationCode a)"

section \<open>What the libraries are assumed to do\<close>

text \<open>
  The documented behaviour of the external functions, as far as the properties below
  rely on it. For crypto-js: decoding inverts encoding (UTF-8, Base64), decrypting under
  the key and IV of the encryption returns the message, and the empty input decodes and
  decrypts to the empty output.
\<close>

definition cjs_ok :: "crypto_lib \<Rightarrow> bool" where
  "cjs_ok L \<longleftrightarrow>
     (\<forall>s b. cjs_utf8_parse L s = Inr b \<longrightarrow> cjs_utf8_stringify L b = Inr s)
   \<and> cjs_utf8_stringify L [] = Inr []
   \<and> (\<forall>b. cjs_base64_parse L (cjs_base64_stringify L b) = b)
   \<and> cjs_base64_parse L [] = []
   \<and> (\<forall>k v m. cjs_aes_cbc_decrypt L k v (cjs_aes_cbc_encrypt L k v m) = m)
   \<and> (\<forall>k v. cjs_aes_cbc_decrypt L k v [] = [])"

text \<open>
  For Node: Base64 decoding of a Buffer's Base64 returns the Buffer; a hexadecimal string
  survives the trip through a Buffer; a generated key pair consists of two non-empty PEM
  strings, and its private key decrypts what its public key encrypted.
\<close>

definition rsa_ok :: "crypto_lib \<Rightarrow> bool" where
  "rsa_ok L \<longleftrightarrow>
     (\<forall>b. buffer_from_base64 L (buffer_to_base64 L b) = b)
   \<and> (\<forall>b. buffer_to_utf8 L (buffer_from_utf8 L (cjs_hex_stringify L b)) = cjs_hex_stringify L b)
   \<and> (\<forall>h pk sk. generateKeyPairSync L h = Inr (pk, sk) \<longrightarrow> pk \<noteq> [] \<and> sk \<noteq> [])
   \<and> (\<forall>h pk sk m h' c. generateKeyPairSync L h = Inr (pk, sk) \<and> publicEncrypt L pk m h' = Inr c
          \<longrightarrow> privateDecrypt L sk c = Inr m)"

text \<open>
  RSA with OAEP padding rejects a ciphertext made for another key: the private key of
  one generated pair makes \<^verbatim>\<open>crypto.privateDecrypt\<close> throw on what the public key of a
  different generated pair encrypted.
\<close>

definition rsa_isolates :: "crypto_lib \<Rightarrow> bool" where
  "rsa_isolates L \<longleftrightarrow>
     (\<forall>h1 h2 pk1 sk1 pk2 sk2 m h' c.
        generateKeyPairSync L h1 = Inr (pk1, sk1) \<and> generateKeyPairSync L h2 = Inr (pk2, sk2)
        \<and> pk1 \<noteq> pk2 \<and> publicEncrypt L pk1 m h' = Inr c
        \<longrightarrow> (\<exists>e. privateDecrypt L sk2 c = Inl e))"

text \<open>A SHA-512 digest in hexadecimal has 128 digits, 4 bits each.\<close>

definition is_hex_digit :: "char \<Rightarrow> bool" where
  "is_hex_digit c = (c \<in> set ''0123456789abcdef'')"

definition sha512_ok :: "crypto_lib \<Rightarrow> bool" where
  "sha512_ok L \<longleftrightarrow>
     (\<forall>b. length (sha512_hex L b) = 128 \<and> list_all is_hex_digit (sha512_hex L b))"

section \<open>A small executable instance of the libraries\<close>

text \<open>
  The properties below hold for every library that behaves as assumed. To run the
  repository's functions on concrete inputs, this instance supplies simple stand-ins with
  the same interface: codecs that map a character to the byte of its code, a cipher that
  masks every byte with one derived from key and IV, and key pairs that are tagged with one
  random byte, which \<open>demo_privateDecrypt\<close> and \<open>demo_verify\<close> check. It has no
  cryptographic strength and is not used as an assumption anywhere.
\<close>

definition byte_of_char :: "char \<Rightarrow> 8 word" where
  "byte_of_char c = of_nat (of_char c)"

definition char_of_byte :: "8 word \<Rightarrow> char" where
  "char_of_byte b = char_of (unat b)"

definition latin1_bytes :: "string \<Rightarrow> bytes" where
  "latin1_bytes s = map byte_of_char s"

definition latin1_string :: "bytes \<Rightarrow> string" where
  "latin1_string b = map char_of_byte b"

definition demo_utf8_parse :: "string \<Rightarrow> bytes result" where
  "demo_utf8_parse s =
     (if list_all (\<lambda>c. (of_char c :: nat) < 128) s then Inr (latin1_bytes s)
      else Inl ''URI malformed'')"

definition demo_utf8_stringify :: "bytes \<Rightarrow> string result" where
  "demo_utf8_stringify b =
     (if list_all (\<lambda>x. x < 128) b then Inr (latin1_string b)
      else Inl ''Malformed UTF-8 data'')"

definition hex_of_bytes :: "bytes \<Rightarrow> string" where
  "hex_of_bytes b = concat (map (\<lambda>x. [hexdigit (unat x div 16), hexdigit (unat x mod 16)]) b)"

definition hexval :: "char \<Rightarrow> nat" where
  "hexval c =
     (let n = (of_char c :: nat) in
      if 48 \<le> n \<and> n \<le> 57 then n - 48
      else if 97 \<le> n \<and> n \<le> 102 then n - 87
      else if 65 \<le> n \<and> n \<le> 70 then n - 55
      else 0)"

fun bytes_of_hex :: "string \<Rightarrow> bytes" where
  "bytes_of_hex (a # b # r) = of_nat (hexval a * 16 + hexval b) # bytes_of_hex r"
| "bytes_of_hex r = []"

definition demo_kdf :: "string \<Rightarrow> bytes \<Rightarrow> bytes \<times> bytes" where
  "demo_kdf password salt = (latin1_bytes password @ salt, salt)"

definition demo_mask :: "bytes \<Rightarrow> bytes \<Rightarrow> 8 word" where
  "demo_mask k v = foldr (XOR) (k @ v) 0"

definition demo_cbc :: "bytes \<Rightarrow> bytes \<Rightarrow> bytes \<Rightarrow> bytes" where
  "demo_cbc k v m = map (\<lambda>x. x XOR demo_mask k v) m"

definition demo_keygen :: "rng \<Rightarrow> (string \<times> string) result" where
  "demo_keygen h = Inr ([CHR ''P'', char_of_byte (h 0)], [CHR ''S'', char_of_byte (h 0)])"

definition demo_publicEncrypt :: "string \<Rightarrow> bytes \<Rightarrow> rng \<Rightarrow> bytes result" where
  "demo_publicEncrypt pk m h =
     (case pk of
        [p, c] \<Rightarrow> if p = CHR ''P'' then Inr (byte_of_char c # m) else Inl ''unsupported key''
      | _ \<Rightarrow> Inl ''unsupported key'')"

definition demo_privateDecrypt :: "string \<Rightarrow> bytes \<Rightarrow> bytes result" where
  "demo_privateDecrypt sk ct =
     (case sk of
        [p, c] \<Rightarrow>
          if p = CHR ''S''
          then (case ct of
                  [] \<Rightarrow> Inl ''data too small''
                | b # m \<Rightarrow> if b = byte_of_char c then Inr m else Inl ''oaep decoding error'')
          else Inl ''unsupported key''
      | _ \<Rightarrow> Inl ''unsupported key'')"

definition demo_sign :: "bytes \<Rightarrow> string \<Rightarrow> bytes result" where
  "demo_sign d sk =
     (case sk of
        [p, c] \<Rightarrow> if p = CHR ''S'' then Inr (byte_of_char c # d) else Inl ''unsupported key''
      | _ \<Rightarrow> Inl ''unsupported key'')"

definition demo_verify :: "bytes \<Rightarrow> string \<Rightarrow> bytes \<Rightarrow> bool result" where
  "demo_verify d pk sg =
     (case pk of
        [p, c] \<Rightarrow> if p = CHR ''P'' then Inr (sg = byte_of_char c # d) else Inl ''unsupported key''
      | _ \<Rightarrow> Inl ''unsupported key'')"

definition demo_sha512_hex :: "bytes \<Rightarrow> string" where
  "demo_sha512_hex b = take 128 (hex_of_bytes (rev b) @ replicate 128 CHR ''0'')"

definition demo_lib :: crypto_lib where
  "demo_lib =
     \<lparr>cjs_utf8_parse = demo_utf8_parse,
      cjs_utf8_stringify = demo_utf8_stringify,
      cjs_hex_stringify = hex_of_bytes,
      cjs_hex_parse = bytes_of_hex,
      cjs_base64_stringify = latin1_string,
      cjs_base64_parse = latin1_bytes,
      cjs_evp_kdf = demo_kdf,
      cjs_aes_cbc_encrypt = demo_cbc,
      cjs_aes_cbc_decrypt = demo_cbc,
      buffer_from_utf8 = latin1_bytes,
      buffer_to_utf8 = latin1_string,
      buffer_from_base64 = latin1_bytes,
      buffer_to_base64 = latin1_string,
      generateKeyPairSync = demo_keygen,
      publicEncrypt = demo_publicEncrypt,
      privateDecrypt = demo_privateDecrypt,
      crypto_sign = demo_sign,
      crypto_verify = demo_verify,
      sha512_hex = demo_sha512_hex,
      toISOString = dec_digits\<rparr>"

section \<open>Sample data\<close>

text \<open>The concrete inputs on which the functions are run below.\<close>

definition sample_user :: user where
  "sample_user = \<lparr>user_id = ''u1'', publicKey = None, privateKey = None\<rparr>"

definition sample_users :: users where
  "sample_users = [''u1'' \<mapsto> sample_user]"

definition sample_tapes :: "(rng \<times> rng) list" where
  "sample_tapes =
     [(constant_tape 0x10, constant_tape 0x41), (constant_tape 0x20, constant_tape 0x42)]"


definition sample_owner :: user where
  "sample_owner = \<lparr>user_id = ''u1'', publicKey = Some ''PA'', privateKey = None\<rparr>"

definition sample_document :: document where
  "sample_document =
     \<lparr>fileName = ''transcript.pdf'',
      documentHash = Some (createHashSHA512 demo_lib (Buf [0x25, 0x50, 0x44, 0x46])),
      digitalSignature = Some ''forged''\<rparr>"

definition sample_signed_document :: document where
  "sample_signed_document =
     sample_document
       \<lparr>digitalSignature :=
          Some (''A'' @ createHashSHA512 demo_lib (Buf [0x25, 0x50, 0x44, 0x46]))\<rparr>"

definition sample_application :: application where
  "sample_application =
     \<lparr>app_id = ''64b0c0ffee'', applicationNumber = Some ''APP2026-ABCXYZ'',
      userId = ''5e0f00d'', status = ''submitted'', verificationCode = None,
      verifiedVerificationCode = None, verifiedCertificateText = None, verifiedAt = None,
      reviewedBy = None, reviewedAt = None, reviewNotes = None\<rparr>"

definition sample_verified_application :: application where
  "sample_verified_application =
     sample_application
       \<lparr>status := ''verified'',
        verifiedVerificationCode := Some ''SVS-VERIFIED-APP2026-ABCXYZ-7d30303030303030'',
        verifiedAt := Some 1700000000000, reviewedBy := Some ''officer'',
        reviewedAt := Some 1700000000000\<rparr>"

definition sample_other_application :: application where
  "sample_other_application =
     \<lparr>app_id = ''64b0c0ffef'', applicationNumber = Some ''APP2026-QRSTUV'',
      userId = ''5e0f00e'', status = ''verified'', verificationCode = None,
      verifiedVerificationCode = Some ''SVS-VERIFIED-APP2026-QRSTUV-7d39393939393939'',
      verifiedCertificateText = None, verifiedAt = Some 1699999999999,
      reviewedBy = Some ''officer'', reviewedAt = Some 1699999999999, reviewNotes = None\<rparr>"

section \<open>The executable instance behaves as assumed\<close>

lemma char_of_byte_of_char: "char_of_byte (byte_of_char c) = c"
  by (simp add: char_of_byte_def byte_of_char_def unat_of_nat)

lemma byte_of_char_of_byte: "byte_of_char (char_of_byte b) = b"
  using unsigned_less [of b, where ?'a = nat] by (simp add: char_of_byte_def byte_of_char_def)

lemma latin1_string_bytes: "latin1_string (latin1_bytes s) = s"
  by (simp add: latin1_string_def latin1_bytes_def comp_def char_of_byte_of_char)

lemma latin1_bytes_string: "latin1_bytes (latin1_string b) = b"
  by (simp add: latin1_string_def latin1_bytes_def comp_def byte_of_char_of_byte)

lemma byte_of_char_less: "(of_char c :: nat) < 128 \<Longrightarrow> byte_of_char c < 128"
  by (simp add: byte_of_char_def word_less_nat_alt unat_of_nat)

lemma demo_cbc_inv: "demo_cbc k v (demo_cbc k v m) = m"
  by (simp add: demo_cbc_def comp_def xor.assoc)

lemma demo_lib_cjs_ok: "cjs_ok demo_lib"
  unfolding cjs_ok_def demo_lib_def
  apply (simp add: demo_utf8_parse_def demo_utf8_stringify_def latin1_string_bytes latin1_bytes_string demo_cbc_inv)
  apply (auto simp: list_all_iff latin1_bytes_def latin1_string_def demo_cbc_def split: if_splits dest: byte_of_char_less)
  done


lemma byte_of_char_inj: "byte_of_char c = byte_of_char d \<Longrightarrow> c = d"
  by (metis char_of_byte_of_char)

lemma demo_lib_rsa_ok: "rsa_ok demo_lib"
  unfolding rsa_ok_def demo_lib_def
  by (auto simp: latin1_string_bytes latin1_bytes_string demo_keygen_def
      demo_publicEncrypt_def demo_privateDecrypt_def)

lemma demo_lib_rsa_isolates: "rsa_isolates demo_lib"
  unfolding rsa_isolates_def demo_lib_def
  by (auto simp: demo_keygen_def demo_publicEncrypt_def demo_privateDecrypt_def
      dest: byte_of_char_inj)

lemma hexdigit_is_hex: "is_hex_digit (hexdigit n)"
proof -
  have "\<forall>k\<in>{..<16::nat}. is_hex_digit (''0123456789abcdef'' ! k)"
    by (simp add: lessThan_nat_numeral lessThan_Suc is_hex_digit_def)
  moreover have "n mod 16 \<in> {..<16}" by simp
  ultimately show ?thesis
    unfolding hexdigit_def by blast
qed

lemma hex_of_bytes_is_hex: "list_all is_hex_digit (hex_of_bytes b)"
  by (induction b) (simp_all add: hex_of_bytes_def hexdigit_is_hex)

lemma demo_lib_sha512_ok: "sha512_ok demo_lib"
  unfolding sha512_ok_def demo_lib_def
  by (auto simp: demo_sha512_hex_def list_all_iff is_hex_digit_def
      dest!: in_set_takeD hex_of_bytes_is_hex [unfolded list_all_iff is_hex_digit_def, rule_format])

section \<open>The symmetric layer\<close>

lemma length_WordArray_random: "length (WordArray_random n g) = n"
  by (simp add: WordArray_random_def)

lemma openssl_parse_stringify:
  assumes "cjs_ok L" and "length s = 8"
  shows "openssl_parse L (openssl_stringify L \<lparr>cp_ciphertext = c, cp_salt = Some s\<rparr>)
         = \<lparr>cp_ciphertext = c, cp_salt = Some s\<rparr>"
proof -
  have b64: "cjs_base64_parse L (cjs_base64_stringify L b) = b" for b
    using assms(1) by (simp add: cjs_ok_def)
  have len: "length salted_magic = 8" by (simp add: salted_magic_def)
  show ?thesis
    using assms(2) len by (simp add: openssl_parse_def openssl_stringify_def b64)
qed

lemma encryptAES_Inr:
  assumes "encryptAES L p k g = Inr a"
  obtains m where "cjs_utf8_parse L p = Inr m"
    and "encryptedData a = openssl_stringify L
           \<lparr>cp_ciphertext =
              cjs_aes_cbc_encrypt L (fst (cjs_evp_kdf L k (WordArray_random 8 (rng_skip 16 g))))
                (snd (cjs_evp_kdf L k (WordArray_random 8 (rng_skip 16 g)))) m,
            cp_salt = Some (WordArray_random 8 (rng_skip 16 g))\<rparr>"
    and "iv a = cjs_hex_stringify L (WordArray_random 16 g)"
  using assms
  by (auto simp: encryptAES_def CryptoJS_AES_encrypt_def SerializableCipher_encrypt_def Let_def
      split: sum.splits)

lemma decryptAES_encryptAES:
  assumes ok: "cjs_ok L" and enc: "encryptAES L p k g = Inr a"
  shows "decryptAES L (encryptedData a) v k g' = Inr p"
proof -
  from enc obtain m where m: "cjs_utf8_parse L p = Inr m"
    and ed: "encryptedData a = openssl_stringify L
           \<lparr>cp_ciphertext =
              cjs_aes_cbc_encrypt L (fst (cjs_evp_kdf L k (WordArray_random 8 (rng_skip 16 g))))
                (snd (cjs_evp_kdf L k (WordArray_random 8 (rng_skip 16 g)))) m,
            cp_salt = Some (WordArray_random 8 (rng_skip 16 g))\<rparr>"
    by (rule encryptAES_Inr)
  have cbc: "cjs_aes_cbc_decrypt L x y (cjs_aes_cbc_encrypt L x y z) = z" for x y z
    using ok by (simp add: cjs_ok_def)
  have utf: "cjs_utf8_stringify L m = Inr p"
    using ok m by (simp add: cjs_ok_def)
  show ?thesis
    by (simp add: decryptAES_def CryptoJS_AES_decrypt_def SerializableCipher_decrypt_def Let_def
        ed openssl_parse_stringify [OF ok] length_WordArray_random cbc utf)
qed


section \<open>The hybrid codec\<close>

lemma char_of_byte_A: "char_of_byte 0x41 = CHR ''A''"
  by (simp add: char_of_byte_def) code_simp

lemma char_of_byte_B: "char_of_byte 0x42 = CHR ''B''"
  by (simp add: char_of_byte_def) code_simp

lemma generateRSAKeyPair_Inr:
  "generateRSAKeyPair L h = Inr kp \<Longrightarrow> generateKeyPairSync L h = Inr kp"
  by (simp add: generateRSAKeyPair_def split: sum.splits)

lemma hybridEncrypt_Inr:
  assumes "hybridEncrypt L P pk g h = Inr out"
  obtains a c where "encryptAES L P (cjs_hex_stringify L (WordArray_random 32 g)) (rng_skip 32 g) = Inr a"
    and "publicEncrypt L pk (buffer_from_utf8 L (cjs_hex_stringify L (WordArray_random 32 g))) h = Inr c"
    and "encryptedData out = encryptedData a" and "iv out = iv a"
    and "encryptedKey out = buffer_to_base64 L c"
  using assms
  by (auto simp: hybridEncrypt_def encryptRSA_def Let_def split: sum.splits)

lemma decryptRSA_encrypted_key:
  assumes ok: "rsa_ok L" and kp: "generateKeyPairSync L h0 = Inr (pk, sk)"
    and c: "publicEncrypt L pk (buffer_from_utf8 L (cjs_hex_stringify L b)) h = Inr c"
  shows "decryptRSA L (buffer_to_base64 L c) sk = Inr (cjs_hex_stringify L b)"
proof -
  have b64: "buffer_from_base64 L (buffer_to_base64 L c) = c"
    using ok by (simp add: rsa_ok_def)
  have utf: "buffer_to_utf8 L (buffer_from_utf8 L (cjs_hex_stringify L b)) = cjs_hex_stringify L b"
    using ok by (simp add: rsa_ok_def)
  have dec: "privateDecrypt L sk c = Inr (buffer_from_utf8 L (cjs_hex_stringify L b))"
    using ok kp c unfolding rsa_ok_def by blast
  show ?thesis
    by (simp add: decryptRSA_def b64 dec utf)
qed

lemma hybridEncrypt_returns:
  assumes "cjs_utf8_parse L P = Inr m"
    and "publicEncrypt L pk (buffer_from_utf8 L (cjs_hex_stringify L (WordArray_random 32 g))) h
         = Inr c"
  shows "\<exists>out. hybridEncrypt L P pk g h = Inr out"
  using assms
  by (simp add: hybridEncrypt_def encryptAES_def encryptRSA_def CryptoJS_AES_encrypt_def
      SerializableCipher_encrypt_def Let_def)

lemma demo_utf8_parse_hello:
  "cjs_utf8_parse demo_lib ''hello-world'' = Inr (latin1_bytes ''hello-world'')"
  by (simp add: demo_lib_def demo_utf8_parse_def latin1_bytes_def)

lemma demo_utf8_parse_empty: "cjs_utf8_parse demo_lib [] = Inr []"
  by (simp add: demo_lib_def demo_utf8_parse_def latin1_bytes_def)

text \<open>
  C1 (round trip). For every payload \<open>P\<close>, the empty string included, and every key pair
  that \<open>generateRSAKeyPair\<close> returns: when the two library calls inside \<open>hybridEncrypt\<close>
  succeed (crypto-js encodes \<open>P\<close>, Node encrypts the fresh AES key under the public key),
  \<open>hybridEncrypt\<close> returns a triple, and \<open>hybridDecrypt\<close> of that triple under the private
  key returns exactly \<open>P\<close>, whatever the randomness of either call.
\<close>

theorem hybrid_round_trip:
  assumes "cjs_ok L" and "rsa_ok L"
    and "generateRSAKeyPair L h0 = Inr (pk, sk)"
    and "cjs_utf8_parse L P = Inr m"
    and "publicEncrypt L pk (buffer_from_utf8 L (cjs_hex_stringify L (WordArray_random 32 g))) h
         = Inr c"
  shows "\<exists>out. hybridEncrypt L P pk g h = Inr out
           \<and> hybridDecrypt L (encryptedData out) (encryptedKey out) (iv out) sk g' = Inr P"
proof -
  from assms(4,5) obtain out where run: "hybridEncrypt L P pk g h = Inr out"
    using hybridEncrypt_returns by blast
  from run obtain a c'
    where a: "encryptAES L P (cjs_hex_stringify L (WordArray_random 32 g)) (rng_skip 32 g) = Inr a"
      and c': "publicEncrypt L pk (buffer_from_utf8 L (cjs_hex_stringify L (WordArray_random 32 g))) h
              = Inr c'"
      and out: "encryptedData out = encryptedData a" "encryptedKey out = buffer_to_base64 L c'"
    by (rule hybridEncrypt_Inr)
  have key: "decryptRSA L (encryptedKey out) sk = Inr (cjs_hex_stringify L (WordArray_random 32 g))"
    using decryptRSA_encrypted_key [OF assms(2) generateRSAKeyPair_Inr [OF assms(3)] c']
    by (simp add: out)
  have "decryptAES L (encryptedData out) (iv out) (cjs_hex_stringify L (WordArray_random 32 g)) g'
        = Inr P"
    using decryptAES_encryptAES [OF assms(1) a] by (simp add: out)
  then have "hybridDecrypt L (encryptedData out) (encryptedKey out) (iv out) sk g' = Inr P"
    by (simp add: hybridDecrypt_def key)
  with run show ?thesis by blast
qed

theorem hybrid_round_trip_witness:
  "cjs_ok demo_lib \<and> rsa_ok demo_lib
   \<and> generateRSAKeyPair demo_lib (constant_tape 0x41) = Inr (''PA'', ''SA'')
   \<and> cjs_utf8_parse demo_lib ''hello-world'' = Inr (latin1_bytes ''hello-world'')
   \<and> cjs_utf8_parse demo_lib [] = Inr []
   \<and> publicEncrypt demo_lib ''PA''
       (buffer_from_utf8 demo_lib
          (cjs_hex_stringify demo_lib (WordArray_random 32 (constant_tape 0x61))))
       (constant_tape 0)
     = Inr (0x41 # buffer_from_utf8 demo_lib
          (cjs_hex_stringify demo_lib (WordArray_random 32 (constant_tape 0x61))))
   \<and> (\<exists>out. hybridEncrypt demo_lib ''hello-world'' ''PA'' (constant_tape 0x61) (constant_tape 0)
              = Inr out
            \<and> hybridDecrypt demo_lib (encryptedData out) (encryptedKey out) (iv out) ''SA''
                (constant_tape 0)
              = Inr ''hello-world'')
   \<and> (\<exists>out. hybridEncrypt demo_lib [] ''PA'' (constant_tape 0x61) (constant_tape 0) = Inr out
            \<and> hybridDecrypt demo_lib (encryptedData out) (encryptedKey out) (iv out) ''SA''
                (constant_tape 0)
              = Inr [])"
proof -
  have kp: "generateRSAKeyPair demo_lib (constant_tape 0x41) = Inr (''PA'', ''SA'')"
    by (simp add: generateRSAKeyPair_def demo_lib_def demo_keygen_def constant_tape_def
        char_of_byte_A)
  have pe: "publicEncrypt demo_lib ''PA''
       (buffer_from_utf8 demo_lib
          (cjs_hex_stringify demo_lib (WordArray_random 32 (constant_tape 0x61))))
       (constant_tape 0)
     = Inr (0x41 # buffer_from_utf8 demo_lib
          (cjs_hex_stringify demo_lib (WordArray_random 32 (constant_tape 0x61))))"
    by (simp add: demo_lib_def demo_publicEncrypt_def byte_of_char_def)
  note t = hybrid_round_trip [OF demo_lib_cjs_ok demo_lib_rsa_ok kp _ pe, of _ _ "constant_tape 0"]
  from t [OF demo_utf8_parse_hello] t [OF demo_utf8_parse_empty]
  show ?thesis
    by (simp only: demo_lib_cjs_ok demo_lib_rsa_ok kp pe demo_utf8_parse_hello
        demo_utf8_parse_empty simp_thms)
qed

section \<open>The IV of the symmetric layer\<close>



section \<open>Key isolation\<close>

text \<open>
  C3 (key isolation). For every payload \<open>P\<close> and two generated key pairs with different
  public keys: decrypting, with the private key of the second pair, the triple that
  \<open>hybridEncrypt\<close> produced under the public key of the first fails; \<open>hybridDecrypt\<close>
  throws the error \<^verbatim>\<open>Hybrid decryption failed: RSA decryption failed: \<close> with the
  library's message, and returns no payload. The rejection itself is the library's (\<open>rsa_isolates\<close>); the repository's code
  turns it into this error.
\<close>

theorem key_isolation:
  assumes "rsa_ok L" and "rsa_isolates L"
    and "generateRSAKeyPair L h1 = Inr (pk1, sk1)"
    and "generateRSAKeyPair L h2 = Inr (pk2, sk2)"
    and "pk1 \<noteq> pk2"
    and "hybridEncrypt L P pk1 g h = Inr out"
  shows "\<exists>e. hybridDecrypt L (encryptedData out) (encryptedKey out) (iv out) sk2 g'
             = Inl (''Hybrid decryption failed: RSA decryption failed: '' @ e)"
proof -
  from assms(6) obtain a c
    where c: "publicEncrypt L pk1 (buffer_from_utf8 L (cjs_hex_stringify L (WordArray_random 32 g))) h
              = Inr c"
      and out: "encryptedKey out = buffer_to_base64 L c"
    by (rule hybridEncrypt_Inr)
  have b64: "buffer_from_base64 L (buffer_to_base64 L c) = c"
    using assms(1) by (simp add: rsa_ok_def)
  have "\<exists>e. privateDecrypt L sk2 c = Inl e"
    using assms(2) generateRSAKeyPair_Inr [OF assms(3)] generateRSAKeyPair_Inr [OF assms(4)]
      assms(5) c
    unfolding rsa_isolates_def by blast
  then obtain e where "privateDecrypt L sk2 c = Inl e" ..
  then have "hybridDecrypt L (encryptedData out) (encryptedKey out) (iv out) sk2 g'
             = Inl (''Hybrid decryption failed: RSA decryption failed: '' @ e)"
    by (simp add: hybridDecrypt_def decryptRSA_def out b64)
  then show ?thesis by blast
qed

theorem key_isolation_witness:
  "rsa_ok demo_lib \<and> rsa_isolates demo_lib
   \<and> generateRSAKeyPair demo_lib (constant_tape 0x41) = Inr (''PA'', ''SA'')
   \<and> generateRSAKeyPair demo_lib (constant_tape 0x42) = Inr (''PB'', ''SB'')
   \<and> ''PA'' \<noteq> ''PB''
   \<and> (case hybridEncrypt demo_lib ''hello-world'' ''PA'' (constant_tape 0x61) (constant_tape 0) of
        Inl e \<Rightarrow> False
      | Inr out \<Rightarrow>
          (\<exists>e. hybridDecrypt demo_lib (encryptedData out) (encryptedKey out) (iv out) ''SB''
                  (constant_tape 0)
                = Inl (''Hybrid decryption failed: RSA decryption failed: '' @ e)))"
proof -
  have kp1: "generateRSAKeyPair demo_lib (constant_tape 0x41) = Inr (''PA'', ''SA'')"
    by (simp add: generateRSAKeyPair_def demo_lib_def demo_keygen_def constant_tape_def
        char_of_byte_A)
  have kp2: "generateRSAKeyPair demo_lib (constant_tape 0x42) = Inr (''PB'', ''SB'')"
    by (simp add: generateRSAKeyPair_def demo_lib_def demo_keygen_def constant_tape_def
        char_of_byte_B)
  have ne: "''PA'' \<noteq> ''PB''" by simp
  obtain out
    where out: "hybridEncrypt demo_lib ''hello-world'' ''PA'' (constant_tape 0x61) (constant_tape 0)
                = Inr out"
    by (simp add: hybridEncrypt_def encryptAES_def encryptRSA_def CryptoJS_AES_encrypt_def
        SerializableCipher_encrypt_def demo_lib_def demo_utf8_parse_def demo_publicEncrypt_def
        Let_def)
  show ?thesis
    using key_isolation
      [OF demo_lib_rsa_ok demo_lib_rsa_isolates kp1 kp2 ne out, of "constant_tape 0"]
    by (simp add: demo_lib_rsa_ok demo_lib_rsa_isolates kp1 kp2 out)
qed

section \<open>Which layer failed\<close>

text \<open>
  C7 as stated does not hold, a failure of \<open>hybridDecrypt\<close> does tell which layer
  failed: on the same stored triple, a private key that cannot unwrap the AES key and one that
  unwraps it to a key under which the payload does not decode give two different messages.
\<close>

theorem hybridDecrypt_layers_counterexample:
  "hybridDecrypt demo_lib [CHR 0xFF] ''A'' [] ''SB'' (constant_tape 0)
     = Inl ''Hybrid decryption failed: RSA decryption failed: oaep decoding error''
   \<and> hybridDecrypt demo_lib [CHR 0xFF] ''A'' [] ''SA'' (constant_tape 0)
     = Inl ''Hybrid decryption failed: Decryption failed: Malformed UTF-8 data''"
  by (simp add: constant_tape_def hybridDecrypt_def decryptRSA_def decryptAES_def CryptoJS_AES_decrypt_def
      SerializableCipher_decrypt_def openssl_parse_def salted_magic_def demo_lib_def
      demo_privateDecrypt_def demo_utf8_stringify_def demo_cbc_def demo_mask_def demo_kdf_def
      latin1_bytes_def latin1_string_def byte_of_char_def WordArray_random_def Let_def upt_rec)

text \<open>
  C7, as the code has it. When \<open>hybridDecrypt\<close> fails, the error message is
  \<^verbatim>\<open>Hybrid decryption failed: \<close> followed by the message of the layer that failed:
  \<^verbatim>\<open>RSA decryption failed: \<close> and the library's message when unwrapping the key threw,
  \<^verbatim>\<open>Decryption failed: \<close> and the library's message when the AES layer threw. Messages of
  the two forms are never equal, so the message names the layer.
\<close>

theorem hybridDecrypt_failure_names_layer:
  assumes "hybridDecrypt L c k v sk g = Inl msg"
  shows "((\<exists>e. privateDecrypt L sk (buffer_from_base64 L k) = Inl e
              \<and> msg = ''Hybrid decryption failed: RSA decryption failed: '' @ e)
       \<or> (\<exists>m e. privateDecrypt L sk (buffer_from_base64 L k) = Inr m
              \<and> decryptAES L c v (buffer_to_utf8 L m) g = Inl (''Decryption failed: '' @ e)
              \<and> msg = ''Hybrid decryption failed: Decryption failed: '' @ e))
       \<and> ''Hybrid decryption failed: RSA decryption failed: '' @ e1
         \<noteq> ''Hybrid decryption failed: Decryption failed: '' @ e2"
  using assms
  by (auto simp: hybridDecrypt_def decryptRSA_def decryptAES_def Let_def split: sum.splits)

theorem hybridDecrypt_failure_names_layer_witness:
  "hybridDecrypt demo_lib [CHR 0xFF] ''A'' [] ''SA'' (constant_tape 0)
     = Inl ''Hybrid decryption failed: Decryption failed: Malformed UTF-8 data''
   \<and> privateDecrypt demo_lib ''SA'' (buffer_from_base64 demo_lib ''A'') = Inr []
   \<and> decryptAES demo_lib [CHR 0xFF] [] (buffer_to_utf8 demo_lib []) (constant_tape 0)
     = Inl ''Decryption failed: Malformed UTF-8 data''"
proof -
  have f: "hybridDecrypt demo_lib [CHR 0xFF] ''A'' [] ''SA'' (constant_tape 0)
     = Inl ''Hybrid decryption failed: Decryption failed: Malformed UTF-8 data''"
    by (simp add: hybridDecrypt_def decryptRSA_def decryptAES_def CryptoJS_AES_decrypt_def
      SerializableCipher_decrypt_def openssl_parse_def salted_magic_def demo_lib_def
      demo_privateDecrypt_def demo_utf8_stringify_def demo_cbc_def demo_mask_def demo_kdf_def
      latin1_bytes_def latin1_string_def byte_of_char_def WordArray_random_def Let_def upt_rec
      constant_tape_def)
  have d: "privateDecrypt demo_lib ''SA'' (buffer_from_base64 demo_lib ''A'') = Inr []"
    by (simp add: demo_lib_def demo_privateDecrypt_def latin1_bytes_def)
  from hybridDecrypt_failure_names_layer [OF f] d
  have "decryptAES demo_lib [CHR 0xFF] [] (buffer_to_utf8 demo_lib []) (constant_tape 0)
     = Inl ''Decryption failed: Malformed UTF-8 data''"
    by auto
  with f d show ?thesis by blast
qed

section \<open>What decryptAES returns\<close>

lemma decryptAES_empty:
  assumes "cjs_ok L"
  shows "decryptAES L [] v k g = Inr []"
proof -
  have "cjs_base64_parse L [] = []" and "cjs_utf8_stringify L [] = Inr []"
    and "cjs_aes_cbc_decrypt L x y [] = []" for x y
    using assms by (simp_all add: cjs_ok_def)
  then show ?thesis
    by (simp add: decryptAES_def CryptoJS_AES_decrypt_def SerializableCipher_decrypt_def
        openssl_parse_def salted_magic_def Let_def)
qed

lemma encryptAES_not_empty:
  assumes "cjs_ok L" and "encryptAES L p k g = Inr a"
  shows "encryptedData a \<noteq> []"
proof
  assume e: "encryptedData a = []"
  from assms(2) obtain ct s
    where "encryptedData a = openssl_stringify L \<lparr>cp_ciphertext = ct, cp_salt = Some s\<rparr>"
    by (rule encryptAES_Inr)
  with e have "cjs_base64_stringify L (salted_magic @ s @ ct) = []"
    by (simp add: openssl_stringify_def)
  then have "cjs_base64_parse L [] = salted_magic @ s @ ct"
    using assms(1) unfolding cjs_ok_def by metis
  moreover have "cjs_base64_parse L [] = []"
    using assms(1) by (simp add: cjs_ok_def)
  ultimately show False
    by (simp add: salted_magic_def)
qed

text \<open>
  C5 as stated does not hold, \<open>decryptAES\<close> does not fail on every malformed input and
  can return an empty result under a wrong key: the empty ciphertext, which no encryption
  produces, decrypts to the empty string under any key and IV, without an error.
\<close>

theorem decryptAES_garbage_counterexample:
  "decryptAES demo_lib [] ''00112233445566778899aabbccddeeff'' ''not the key'' (constant_tape 0)
   = Inr []"
  by (simp add: decryptAES_empty [OF demo_lib_cjs_ok])

text \<open>
  C5, as the code has it. \<open>decryptAES\<close> returns the original plaintext for a ciphertext
  that \<open>encryptAES\<close> produced under the same key. In general it returns whatever string
  the bytes that crypto-js decrypted decode to, and fails, with \<^verbatim>\<open>Decryption failed: \<close> and
  the library's message, exactly when that decoding throws; it checks neither the key nor
  the padding itself. So the empty ciphertext, which is never the output of an encryption,
  yields the empty string.
\<close>

theorem decryptAES_returns_what_the_cipher_yields:
  assumes "cjs_ok L"
  shows "(encryptAES L p k g = Inr a \<longrightarrow> decryptAES L (encryptedData a) (iv a) k g' = Inr p)
       \<and> decryptAES L c v k g'
         = (case cjs_utf8_stringify L (CryptoJS_AES_decrypt L c k \<lparr>cfg_iv = cjs_hex_parse L v\<rparr> g') of
              Inl e \<Rightarrow> Inl (''Decryption failed: '' @ e)
            | Inr s \<Rightarrow> Inr s)
       \<and> decryptAES L [] v k g' = Inr []
       \<and> (encryptAES L p k g = Inr a \<longrightarrow> encryptedData a \<noteq> [])"
  using decryptAES_encryptAES [OF assms] decryptAES_empty [OF assms]
    encryptAES_not_empty [OF assms]
  by (simp add: decryptAES_def Let_def)

theorem decryptAES_returns_what_the_cipher_yields_witness:
  "cjs_ok demo_lib
   \<and> (case encryptAES demo_lib ''hello-world'' ''k'' (constant_tape 0x11) of
        Inl e \<Rightarrow> False
      | Inr a \<Rightarrow> decryptAES demo_lib (encryptedData a) (iv a) ''k'' (constant_tape 0) = Inr ''hello-world'')
   \<and> decryptAES demo_lib [] ''00'' ''k'' (constant_tape 0) = Inr []"
proof -
  obtain a where a: "encryptAES demo_lib ''hello-world'' ''k'' (constant_tape 0x11) = Inr a"
    by (simp add: encryptAES_def CryptoJS_AES_encrypt_def SerializableCipher_encrypt_def
        demo_lib_def demo_utf8_parse_def Let_def)
  have "decryptAES demo_lib (encryptedData a) (iv a) ''k'' (constant_tape 0) = Inr ''hello-world''"
    and "decryptAES demo_lib [] ''00'' ''k'' (constant_tape 0) = Inr []"
    using decryptAES_returns_what_the_cipher_yields
      [OF demo_lib_cjs_ok, of "''hello-world''" "''k''" "constant_tape 0x11" a "constant_tape 0" "[]" "''00''"] a
    by blast+
  then show ?thesis
    by (simp add: demo_lib_cjs_ok a)
qed

section \<open>Signature verification\<close>



section \<open>The integrity check\<close>

lemma integrityValid_eq:
  "integrityValid L fb doc owner = Inr (digestMatches L fb doc \<and> signatureValid L doc owner)"
  by (auto simp: integrityValid_def digestMatches_def signatureValid_def Let_def
      verifyDigitalSignature_def split: sum.splits option.splits)

text \<open>
  C2 (integrity check). For every stored document and every decrypted content, both
  routes report tampering exactly when NOT(the digest matches AND the signature is valid).
  \<^verbatim>\<open>GET /documents/:id\<close> answers with the tampering error in that case and with the
  file otherwise; \<^verbatim>\<open>GET /documents/:id/verify\<close> sets \<^verbatim>\<open>isTampered\<close> in that case and
  clears it otherwise. A digest that differs, or a signature that does not verify under
  the owner's public key, is each enough; only both checks passing yields
  non-tampered.
\<close>

theorem integrity_check_tampered:
  "reports_tampered (get_document_respond L fb doc owner)
     = checkIntegrity_tampered (digestMatches L fb doc) (signatureValid L doc owner)
   \<and> reports_tampered (verify_document_respond L fb doc owner)
     = checkIntegrity_tampered (digestMatches L fb doc) (signatureValid L doc owner)
   \<and> get_document_respond L fb doc owner
     = (if checkIntegrity_tampered (digestMatches L fb doc) (signatureValid L doc owner)
        then Json 500 ''Document integrity check failed - file may have been tampered''
        else Download fb (fileName doc) ''true'')
   \<and> verify_document_respond L fb doc owner
     = Verification (digestMatches L fb doc \<and> signatureValid L doc owner) (documentHash doc)
         (createHashSHA512 L (Buf fb)) (digitalSignature doc)
         (checkIntegrity_tampered (digestMatches L fb doc) (signatureValid L doc owner))"
  by (simp add: get_document_respond_def verify_document_respond_def integrityValid_eq
      reports_tampered_def checkIntegrity_tampered_def)

theorem integrity_check_tampered_witness:
  "digestMatches demo_lib [0x25, 0x50, 0x44, 0x46] sample_document
   \<and> \<not> signatureValid demo_lib sample_document sample_owner
   \<and> get_document_respond demo_lib [0x25, 0x50, 0x44, 0x46] sample_document sample_owner
     = Json 500 ''Document integrity check failed - file may have been tampered''
   \<and> reports_tampered
       (verify_document_respond demo_lib [0x25, 0x50, 0x44, 0x46] sample_document sample_owner)
   \<and> \<not> digestMatches demo_lib [0x25, 0x50, 0x44, 0x47] sample_signed_document
   \<and> signatureValid demo_lib sample_signed_document sample_owner
   \<and> get_document_respond demo_lib [0x25, 0x50, 0x44, 0x47] sample_signed_document sample_owner
     = Json 500 ''Document integrity check failed - file may have been tampered''
   \<and> digestMatches demo_lib [0x25, 0x50, 0x44, 0x46] sample_signed_document
   \<and> get_document_respond demo_lib [0x25, 0x50, 0x44, 0x46] sample_signed_document sample_owner
     = Download [0x25, 0x50, 0x44, 0x46] ''transcript.pdf'' ''true''"
proof -
  have dm: "digestMatches demo_lib [0x25, 0x50, 0x44, 0x46] sample_document"
    "digestMatches demo_lib [0x25, 0x50, 0x44, 0x46] sample_signed_document"
    by (simp_all add: digestMatches_def sample_document_def sample_signed_document_def)
  have sv: "\<not> signatureValid demo_lib sample_document sample_owner"
    by (simp add: signatureValid_def verifyDigitalSignature_def verifyDigitalSignature_try_def
        sample_document_def sample_owner_def demo_lib_def demo_verify_def latin1_bytes_def
        to_buffer_def byte_of_char_def)
  have sv': "signatureValid demo_lib sample_signed_document sample_owner"
    by (simp add: signatureValid_def verifyDigitalSignature_def verifyDigitalSignature_try_def
        sample_document_def sample_signed_document_def sample_owner_def demo_lib_def
        demo_verify_def latin1_bytes_def to_buffer_def)
  have dm': "\<not> digestMatches demo_lib [0x25, 0x50, 0x44, 0x47] sample_signed_document"
    by (simp add: digestMatches_def sample_document_def sample_signed_document_def
        createHashSHA512_def to_buffer_def demo_lib_def demo_sha512_hex_def hex_of_bytes_def
        hexdigit_def)
  have name: "fileName sample_signed_document = ''transcript.pdf''"
    by (simp add: sample_document_def sample_signed_document_def)
  have "get_document_respond demo_lib [0x25, 0x50, 0x44, 0x46] sample_document sample_owner
        = Json 500 ''Document integrity check failed - file may have been tampered''"
    and "reports_tampered
          (verify_document_respond demo_lib [0x25, 0x50, 0x44, 0x46] sample_document sample_owner)"
    using integrity_check_tampered
      [of demo_lib "[0x25, 0x50, 0x44, 0x46]" sample_document sample_owner] sv
    by (simp_all add: checkIntegrity_tampered_def reports_tampered_def)
  moreover
  have "get_document_respond demo_lib [0x25, 0x50, 0x44, 0x47] sample_signed_document sample_owner
        = Json 500 ''Document integrity check failed - file may have been tampered''"
    using integrity_check_tampered
      [of demo_lib "[0x25, 0x50, 0x44, 0x47]" sample_signed_document sample_owner] dm'
    by (simp add: checkIntegrity_tampered_def)
  moreover
  have "get_document_respond demo_lib [0x25, 0x50, 0x44, 0x46] sample_signed_document sample_owner
        = Download [0x25, 0x50, 0x44, 0x46] ''transcript.pdf'' ''true''"
    using integrity_check_tampered
      [of demo_lib "[0x25, 0x50, 0x44, 0x46]" sample_signed_document sample_owner] dm(2) sv'
    by (simp add: checkIntegrity_tampered_def name)
  ultimately show ?thesis
    using dm sv sv' dm' by blast
qed

section \<open>Key generation on demand\<close>

lemma ensureUserKeys_has_keys:
  assumes "truthy (publicKey u)" and "truthy (privateKey u)"
  shows "ensureUserKeys L env db (Some u) g h = Inr (db, u)"
  using assms by (simp add: ensureUserKeys_def)

lemma ensureUserKeys_generates:
  assumes "\<not> (truthy (publicKey u) \<and> truthy (privateKey u))"
    and "ensureUserKeys L env db (Some u) g h = Inr (db', u')"
  obtains pk sk a where "generateKeyPairSync L h = Inr (pk, sk)"
    and "encryptAES L sk (AES_SECRET env) g = Inr a"
    and "u' = u\<lparr>publicKey := Some pk,
                  privateKey := Some (key_blob_json (encryptedData a) (iv a))\<rparr>"
    and "db' = db(user_id u \<mapsto> u')"
  using assms
  by (cases "generateKeyPairSync L h")
     (auto simp: ensureUserKeys_def generateRSAKeyPair_def user_save_def Let_def split: sum.splits)

lemma ensureUserKeys_fresh:
  assumes "\<not> (truthy (publicKey u) \<and> truthy (privateKey u))"
    and "generateRSAKeyPair L h = Inr (pk, sk)"
    and "encryptAES L sk (AES_SECRET env) g = Inr a"
  shows "ensureUserKeys L env db (Some u) g h
         = Inr (db(user_id u \<mapsto> u\<lparr>publicKey := Some pk,
                                           privateKey := Some (key_blob_json (encryptedData a) (iv a))\<rparr>), u\<lparr>publicKey := Some pk, privateKey := Some (key_blob_json (encryptedData a) (iv a))\<rparr>)"
  using assms by (auto simp: ensureUserKeys_def user_save_def Let_def)

lemma generated_keys_truthy:
  assumes "rsa_ok L" and "generateRSAKeyPair L h = Inr (pk, sk)"
  shows "truthy (publicKey (u\<lparr>publicKey := Some pk,
                                privateKey := Some (key_blob_json (encryptedData a) (iv a))\<rparr>))" and "truthy (privateKey (u\<lparr>publicKey := Some pk, privateKey := Some (key_blob_json (encryptedData a) (iv a))\<rparr>))"
proof -
  have "pk \<noteq> []"
    using assms(1) generateRSAKeyPair_Inr [OF assms(2)] unfolding rsa_ok_def by blast
  then show "truthy (publicKey (u\<lparr>publicKey := Some pk,
                                    privateKey := Some (key_blob_json (encryptedData a) (iv a))\<rparr>))" by (simp add: truthy_def)
  show "truthy (privateKey (u\<lparr>publicKey := Some pk,
                                privateKey := Some (key_blob_json (encryptedData a) (iv a))\<rparr>))" by (simp add: truthy_def key_blob_json_def)
qed

lemma run_two_requests:
  assumes ok: "rsa_ok L"
    and nokeys: "\<not> (truthy (publicKey u) \<and> truthy (privateKey u))"
    and stored: "db (user_id u) = Some u"
    and kA: "generateRSAKeyPair L hA = Inr (pkA, skA)"
    and eA: "encryptAES L skA (AES_SECRET env) gA = Inr aA"
    and kB: "generateRSAKeyPair L hB = Inr (pkB, skB)"
    and eB: "encryptAES L skB (AES_SECRET env) gB = Inr aB"
    and uA: "uA = u\<lparr>publicKey := Some pkA,
                      privateKey := Some (key_blob_json (encryptedData aA) (iv aA))\<rparr>" and uB: "uB = u\<lparr>publicKey := Some pkB, privateKey := Some (key_blob_json (encryptedData aB) (iv aB))\<rparr>"
  shows "run_requests L env (user_id u) [(gA, hA), (gB, hB)] (db, [Awaiting_find, Awaiting_find])
           [0, 1, 0, 1] = (db(user_id u \<mapsto> uB), [Returned (Inr uA), Returned (Inr uB)])"
    and "run_requests L env (user_id u) [(gA, hA), (gB, hB)] (db, [Awaiting_find, Awaiting_find])
           [1, 0, 0, 1] = (db(user_id u \<mapsto> uB), [Returned (Inr uA), Returned (Inr uB)])"
    and "run_requests L env (user_id u) [(gA, hA), (gB, hB)] (db, [Awaiting_find, Awaiting_find])
           [0, 1, 1, 0] = (db(user_id u \<mapsto> uA), [Returned (Inr uA), Returned (Inr uB)])"
    and "run_requests L env (user_id u) [(gA, hA), (gB, hB)] (db, [Awaiting_find, Awaiting_find])
           [1, 0, 1, 0] = (db(user_id u \<mapsto> uA), [Returned (Inr uA), Returned (Inr uB)])"
    and "run_requests L env (user_id u) [(gA, hA), (gB, hB)] (db, [Awaiting_find, Awaiting_find])
           [0, 0, 1, 1] = (db(user_id u \<mapsto> uA), [Returned (Inr uA), Returned (Inr uA)])"
    and "run_requests L env (user_id u) [(gA, hA), (gB, hB)] (db, [Awaiting_find, Awaiting_find])
           [1, 1, 0, 0] = (db(user_id u \<mapsto> uB), [Returned (Inr uB), Returned (Inr uB)])"
proof -
  note fresh = ensureUserKeys_fresh [OF nokeys kA eA, folded uA]
    ensureUserKeys_fresh [OF nokeys kB eB, folded uB]
  have keysA: "truthy (publicKey uA)" "truthy (privateKey uA)"
    using generated_keys_truthy [OF ok kA, where u = u and a = aA] by (simp_all add: uA)
  have keysB: "truthy (publicKey uB)" "truthy (privateKey uB)"
    using generated_keys_truthy [OF ok kB, where u = u and a = aB] by (simp_all add: uB)
  have idA: "user_id uA = user_id u" and idB: "user_id uB = user_id u"
    by (simp_all add: uA uB)
  note has = ensureUserKeys_has_keys [OF keysA] ensureUserKeys_has_keys [OF keysB]
  show "run_requests L env (user_id u) [(gA, hA), (gB, hB)] (db, [Awaiting_find, Awaiting_find])
           [0, 1, 0, 1] = (db(user_id u \<mapsto> uB), [Returned (Inr uA), Returned (Inr uB)])"
    by (simp add: request_step_def User_findById_def stored fresh Let_def)
  show "run_requests L env (user_id u) [(gA, hA), (gB, hB)] (db, [Awaiting_find, Awaiting_find])
           [1, 0, 0, 1] = (db(user_id u \<mapsto> uB), [Returned (Inr uA), Returned (Inr uB)])"
    by (simp add: request_step_def User_findById_def stored fresh Let_def)
  show "run_requests L env (user_id u) [(gA, hA), (gB, hB)] (db, [Awaiting_find, Awaiting_find])
           [0, 1, 1, 0] = (db(user_id u \<mapsto> uA), [Returned (Inr uA), Returned (Inr uB)])"
    by (simp add: request_step_def User_findById_def stored fresh Let_def)
  show "run_requests L env (user_id u) [(gA, hA), (gB, hB)] (db, [Awaiting_find, Awaiting_find])
           [1, 0, 1, 0] = (db(user_id u \<mapsto> uA), [Returned (Inr uA), Returned (Inr uB)])"
    by (simp add: request_step_def User_findById_def stored fresh Let_def)
  show "run_requests L env (user_id u) [(gA, hA), (gB, hB)] (db, [Awaiting_find, Awaiting_find])
           [0, 0, 1, 1] = (db(user_id u \<mapsto> uA), [Returned (Inr uA), Returned (Inr uA)])"
    by (simp add: request_step_def User_findById_def stored fresh has Let_def)
  show "run_requests L env (user_id u) [(gA, hA), (gB, hB)] (db, [Awaiting_find, Awaiting_find])
           [1, 1, 0, 0] = (db(user_id u \<mapsto> uB), [Returned (Inr uB), Returned (Inr uB)])"
    by (simp add: request_step_def User_findById_def stored fresh has Let_def)
qed

lemma demo_encryptAES_returns: "\<exists>a. encryptAES demo_lib [CHR ''S'', c] (AES_SECRET None) g = Inr a"
  if "(of_char c :: nat) < 128"
  using that
  by (simp add: encryptAES_def CryptoJS_AES_encrypt_def SerializableCipher_encrypt_def
      demo_lib_def demo_utf8_parse_def Let_def)

text \<open>
  C4, as the code has it. A call on a document that has both keys returns it and writes
  nothing. A call on a document that lacks one, if it returns, has generated exactly one
  pair with \<open>generateRSAKeyPair\<close>, encrypted the private key with \<open>encryptAES\<close> under the
  process-wide secret, stored the public key and the encrypted private key in the
  document and saved it over whatever the store held for that user, leaving other users
  alone; the stored private key decrypts to the generated one, and a later call on the
  stored document returns the same pair and writes nothing. So two first-time requests
  that run one after the other (schedules 0, 0, 1, 1 and 1, 1, 0, 0) both return the one
  pair the first generated. Two that both read the document before either has saved
  (the four other schedules) each generate and save their own pair: the store ends with
  the pair of the request that saved last, and the other request has returned a pair that
  is not the persisted one.
\<close>

theorem ensureUserKeys_generates_and_persists:
  assumes "cjs_ok L" and "rsa_ok L"
  shows "(truthy (publicKey u) \<and> truthy (privateKey u)
            \<longrightarrow> ensureUserKeys L env db (Some u) g h = Inr (db, u))
       \<and> (\<not> (truthy (publicKey u) \<and> truthy (privateKey u))
            \<and> ensureUserKeys L env db (Some u) g h = Inr (db', u')
            \<longrightarrow> (\<exists>pk sk a. generateRSAKeyPair L h = Inr (pk, sk)
                    \<and> encryptAES L sk (AES_SECRET env) g = Inr a
                    \<and> u' = u\<lparr>publicKey := Some pk,
                                    privateKey := Some (key_blob_json (encryptedData a) (iv a))\<rparr>
                    \<and> db' = db(user_id u \<mapsto> u')))
       \<and> (\<not> (truthy (publicKey u) \<and> truthy (privateKey u))
            \<and> generateRSAKeyPair L h = Inr (pk, sk)
            \<and> encryptAES L sk (AES_SECRET env) g = Inr a
            \<longrightarrow> (let v = u\<lparr>publicKey := Some pk,
                                           privateKey := Some (key_blob_json (encryptedData a) (iv a))\<rparr>;
                     dbv = db(user_id u \<mapsto> v)
                 in ensureUserKeys L env db (Some u) g h = Inr (dbv, v)
                  \<and> decryptAES L (encryptedData a) (iv a) (AES_SECRET env) g' = Inr sk
                  \<and> ensureUserKeys L env dbv (User_findById dbv (user_id u)) gN hN
                    = Inr (dbv, v)))
       \<and> (\<not> (truthy (publicKey u) \<and> truthy (privateKey u))
            \<and> db (user_id u) = Some u
            \<and> generateRSAKeyPair L hA = Inr (pkA, skA)
            \<and> encryptAES L skA (AES_SECRET env) gA = Inr aA
            \<and> generateRSAKeyPair L hB = Inr (pkB, skB)
            \<and> encryptAES L skB (AES_SECRET env) gB = Inr aB
            \<longrightarrow> (let uA = u\<lparr>publicKey := Some pkA,
                                            privateKey := Some (key_blob_json (encryptedData aA) (iv aA))\<rparr>;
                     uB = u\<lparr>publicKey := Some pkB,
                              privateKey := Some (key_blob_json (encryptedData aB) (iv aB))\<rparr>;
                     run = run_requests L env (user_id u) [(gA, hA), (gB, hB)]
                             (db, [Awaiting_find, Awaiting_find])
                 in run [0, 1, 0, 1]
                      = (db(user_id u \<mapsto> uB), [Returned (Inr uA), Returned (Inr uB)])
                  \<and> run [1, 0, 0, 1]
                      = (db(user_id u \<mapsto> uB), [Returned (Inr uA), Returned (Inr uB)])
                  \<and> run [0, 1, 1, 0]
                      = (db(user_id u \<mapsto> uA), [Returned (Inr uA), Returned (Inr uB)])
                  \<and> run [1, 0, 1, 0]
                      = (db(user_id u \<mapsto> uA), [Returned (Inr uA), Returned (Inr uB)])
                  \<and> run [0, 0, 1, 1]
                      = (db(user_id u \<mapsto> uA), [Returned (Inr uA), Returned (Inr uA)])
                  \<and> run [1, 1, 0, 0]
                      = (db(user_id u \<mapsto> uB), [Returned (Inr uB), Returned (Inr uB)])))"
proof (intro conjI impI)
  assume "truthy (publicKey u) \<and> truthy (privateKey u)"
  then show "ensureUserKeys L env db (Some u) g h = Inr (db, u)"
    by (simp add: ensureUserKeys_has_keys)
next
  assume "\<not> (truthy (publicKey u) \<and> truthy (privateKey u))
          \<and> ensureUserKeys L env db (Some u) g h = Inr (db', u')"
  then have n: "\<not> (truthy (publicKey u) \<and> truthy (privateKey u))"
    and r: "ensureUserKeys L env db (Some u) g h = Inr (db', u')"
    by blast+
  from n r obtain pk sk a
    where "generateKeyPairSync L h = Inr (pk, sk)"
      and "encryptAES L sk (AES_SECRET env) g = Inr a"
      and "u' = u\<lparr>publicKey := Some pk,
                    privateKey := Some (key_blob_json (encryptedData a) (iv a))\<rparr>"
      and "db' = db(user_id u \<mapsto> u')"
    by (rule ensureUserKeys_generates)
  then show "\<exists>pk sk a. generateRSAKeyPair L h = Inr (pk, sk)
                    \<and> encryptAES L sk (AES_SECRET env) g = Inr a
                    \<and> u' = u\<lparr>publicKey := Some pk,
                                    privateKey := Some (key_blob_json (encryptedData a) (iv a))\<rparr>
                    \<and> db' = db(user_id u \<mapsto> u')"
    by (auto simp: generateRSAKeyPair_def)
next
  assume "\<not> (truthy (publicKey u) \<and> truthy (privateKey u))
            \<and> generateRSAKeyPair L h = Inr (pk, sk)
            \<and> encryptAES L sk (AES_SECRET env) g = Inr a"
  then have n: "\<not> (truthy (publicKey u) \<and> truthy (privateKey u))"
    and k: "generateRSAKeyPair L h = Inr (pk, sk)"
    and e: "encryptAES L sk (AES_SECRET env) g = Inr a"
    by blast+
  define v where "v = u\<lparr>publicKey := Some pk,
                          privateKey := Some (key_blob_json (encryptedData a) (iv a))\<rparr>"
  have run: "ensureUserKeys L env db (Some u) g h = Inr (db(user_id u \<mapsto> v), v)"
    unfolding v_def by (rule ensureUserKeys_fresh [OF n k e])
  have keys: "truthy (publicKey v)" "truthy (privateKey v)"
    unfolding v_def by (rule generated_keys_truthy [OF assms(2) k])+
  have again: "ensureUserKeys L env (db(user_id u \<mapsto> v))
                 (User_findById (db(user_id u \<mapsto> v)) (user_id u)) gN hN
               = Inr (db(user_id u \<mapsto> v), v)"
    by (simp add: User_findById_def ensureUserKeys_has_keys [OF keys])
  have dec: "decryptAES L (encryptedData a) (iv a) (AES_SECRET env) g' = Inr sk"
    by (rule decryptAES_encryptAES [OF assms(1) e])
  from run dec again
  show "let v = u\<lparr>publicKey := Some pk,
                    privateKey := Some (key_blob_json (encryptedData a) (iv a))\<rparr>;
            dbv = db(user_id u \<mapsto> v)
        in ensureUserKeys L env db (Some u) g h = Inr (dbv, v)
         \<and> decryptAES L (encryptedData a) (iv a) (AES_SECRET env) g' = Inr sk
         \<and> ensureUserKeys L env dbv (User_findById dbv (user_id u)) gN hN = Inr (dbv, v)"
    by (simp add: Let_def v_def)
next
  assume "\<not> (truthy (publicKey u) \<and> truthy (privateKey u))
            \<and> db (user_id u) = Some u
            \<and> generateRSAKeyPair L hA = Inr (pkA, skA)
            \<and> encryptAES L skA (AES_SECRET env) gA = Inr aA
            \<and> generateRSAKeyPair L hB = Inr (pkB, skB)
            \<and> encryptAES L skB (AES_SECRET env) gB = Inr aB"
  then have n: "\<not> (truthy (publicKey u) \<and> truthy (privateKey u))"
    and st: "db (user_id u) = Some u"
    and kA: "generateRSAKeyPair L hA = Inr (pkA, skA)"
    and eA: "encryptAES L skA (AES_SECRET env) gA = Inr aA"
    and kB: "generateRSAKeyPair L hB = Inr (pkB, skB)"
    and eB: "encryptAES L skB (AES_SECRET env) gB = Inr aB"
    by blast+
  note runs = run_two_requests [where db = db and u = u, OF assms(2) n st kA eA kB eB refl refl]
  show "let uA = u\<lparr>publicKey := Some pkA,
                     privateKey := Some (key_blob_json (encryptedData aA) (iv aA))\<rparr>;
            uB = u\<lparr>publicKey := Some pkB,
                     privateKey := Some (key_blob_json (encryptedData aB) (iv aB))\<rparr>;
            run = run_requests L env (user_id u) [(gA, hA), (gB, hB)]
                    (db, [Awaiting_find, Awaiting_find])
        in run [0, 1, 0, 1]
             = (db(user_id u \<mapsto> uB), [Returned (Inr uA), Returned (Inr uB)])
         \<and> run [1, 0, 0, 1]
             = (db(user_id u \<mapsto> uB), [Returned (Inr uA), Returned (Inr uB)])
         \<and> run [0, 1, 1, 0]
             = (db(user_id u \<mapsto> uA), [Returned (Inr uA), Returned (Inr uB)])
         \<and> run [1, 0, 1, 0]
             = (db(user_id u \<mapsto> uA), [Returned (Inr uA), Returned (Inr uB)])
         \<and> run [0, 0, 1, 1]
             = (db(user_id u \<mapsto> uA), [Returned (Inr uA), Returned (Inr uA)])
         \<and> run [1, 1, 0, 0]
             = (db(user_id u \<mapsto> uB), [Returned (Inr uB), Returned (Inr uB)])"
    unfolding Let_def by (intro conjI) (rule runs)+
qed


theorem ensureUserKeys_generates_and_persists_witness:
  "cjs_ok demo_lib \<and> rsa_ok demo_lib
   \<and> \<not> (truthy (publicKey sample_user) \<and> truthy (privateKey sample_user))
   \<and> sample_users (user_id sample_user) = Some sample_user
   \<and> generateRSAKeyPair demo_lib (constant_tape 0x41) = Inr (''PA'', ''SA'')
   \<and> generateRSAKeyPair demo_lib (constant_tape 0x42) = Inr (''PB'', ''SB'')
   \<and> (\<exists>aA aB.
         encryptAES demo_lib ''SA'' (AES_SECRET None) (constant_tape 0x10) = Inr aA
       \<and> encryptAES demo_lib ''SB'' (AES_SECRET None) (constant_tape 0x20) = Inr aB
       \<and> (let uA = sample_user\<lparr>publicKey := Some ''PA'',
                            privateKey := Some (key_blob_json (encryptedData aA) (iv aA))\<rparr>;
               uB = sample_user\<lparr>publicKey := Some ''PB'',
                        privateKey := Some (key_blob_json (encryptedData aB) (iv aB))\<rparr>;
               dbA = sample_users(user_id sample_user \<mapsto> uA);
               dbB = sample_users(user_id sample_user \<mapsto> uB);
               run = run_requests demo_lib None (user_id sample_user)
                       [(constant_tape 0x10, constant_tape 0x41),
                        (constant_tape 0x20, constant_tape 0x42)]
                       (sample_users, [Awaiting_find, Awaiting_find])
           in ensureUserKeys demo_lib None sample_users (Some sample_user)
                (constant_tape 0x10) (constant_tape 0x41) = Inr (dbA, uA)
            \<and> decryptAES demo_lib (encryptedData aA) (iv aA) (AES_SECRET None) (constant_tape 0)
              = Inr ''SA''
            \<and> ensureUserKeys demo_lib None dbA (User_findById dbA (user_id sample_user))
                (constant_tape 0x20) (constant_tape 0x42) = Inr (dbA, uA)
            \<and> truthy (publicKey uA) \<and> truthy (privateKey uA)
            \<and> ensureUserKeys demo_lib None dbB (Some uA)
                (constant_tape 0x20) (constant_tape 0x42) = Inr (dbB, uA)
            \<and> run [0, 1, 0, 1] = (dbB, [Returned (Inr uA), Returned (Inr uB)])
            \<and> run [0, 1, 1, 0] = (dbA, [Returned (Inr uA), Returned (Inr uB)])
            \<and> run [0, 0, 1, 1] = (dbA, [Returned (Inr uA), Returned (Inr uA)])))"
proof -
  obtain aA where aA: "encryptAES demo_lib ''SA'' (AES_SECRET None) (constant_tape 0x10) = Inr aA"
    using demo_encryptAES_returns [of "CHR ''A''"] by auto
  obtain aB where aB: "encryptAES demo_lib ''SB'' (AES_SECRET None) (constant_tape 0x20) = Inr aB"
    using demo_encryptAES_returns [of "CHR ''B''"] by auto
  have kA: "generateRSAKeyPair demo_lib (constant_tape 0x41) = Inr (''PA'', ''SA'')"
    by (simp add: generateRSAKeyPair_def demo_lib_def demo_keygen_def constant_tape_def
        char_of_byte_A)
  have kB: "generateRSAKeyPair demo_lib (constant_tape 0x42) = Inr (''PB'', ''SB'')"
    by (simp add: generateRSAKeyPair_def demo_lib_def demo_keygen_def constant_tape_def
        char_of_byte_B)
  have n: "\<not> (truthy (publicKey sample_user) \<and> truthy (privateKey sample_user))"
    by (simp add: sample_user_def truthy_def)
  have st: "sample_users (user_id sample_user) = Some sample_user"
    by (simp add: sample_users_def sample_user_def)
  define uA
    where "uA = sample_user\<lparr>publicKey := Some ''PA'',
                  privateKey := Some (key_blob_json (encryptedData aA) (iv aA))\<rparr>"
  define uB
    where "uB = sample_user\<lparr>publicKey := Some ''PB'',
                  privateKey := Some (key_blob_json (encryptedData aB) (iv aB))\<rparr>"
  note inst = ensureUserKeys_generates_and_persists [OF demo_lib_cjs_ok demo_lib_rsa_ok]
  have fresh: "ensureUserKeys demo_lib None sample_users (Some sample_user)
                 (constant_tape 0x10) (constant_tape 0x41)
               = Inr (sample_users(user_id sample_user \<mapsto> uA), uA)"
    and dec: "decryptAES demo_lib (encryptedData aA) (iv aA) (AES_SECRET None) (constant_tape 0)
              = Inr ''SA''"
    and again: "ensureUserKeys demo_lib None (sample_users(user_id sample_user \<mapsto> uA))
                  (User_findById (sample_users(user_id sample_user \<mapsto> uA))
                     (user_id sample_user))
                  (constant_tape 0x20) (constant_tape 0x42)
                = Inr (sample_users(user_id sample_user \<mapsto> uA), uA)"
    using inst [where u = sample_user and db = sample_users and h = "constant_tape 0x41"
        and g = "constant_tape 0x10" and pk = "''PA''" and sk = "''SA''" and a = aA
        and env = None and g' = "constant_tape 0" and gN = "constant_tape 0x20"
        and hN = "constant_tape 0x42"]
      n kA aA
    unfolding Let_def uA_def by blast+
  have keys: "truthy (publicKey uA)" "truthy (privateKey uA)"
    by (simp_all add: uA_def truthy_def key_blob_json_def)
  have stale: "ensureUserKeys demo_lib None (sample_users(user_id sample_user \<mapsto> uB)) (Some uA)
                 (constant_tape 0x20) (constant_tape 0x42)
               = Inr (sample_users(user_id sample_user \<mapsto> uB), uA)"
    using inst [where u = uA and db = "sample_users(user_id sample_user \<mapsto> uB)"
        and env = None and g = "constant_tape 0x20" and h = "constant_tape 0x42"] keys
    by blast
  have runs: "run_requests demo_lib None (user_id sample_user)
                [(constant_tape 0x10, constant_tape 0x41), (constant_tape 0x20, constant_tape 0x42)]
                (sample_users, [Awaiting_find, Awaiting_find]) [0, 1, 0, 1]
              = (sample_users(user_id sample_user \<mapsto> uB),
                 [Returned (Inr uA), Returned (Inr uB)])"
    "run_requests demo_lib None (user_id sample_user)
                [(constant_tape 0x10, constant_tape 0x41), (constant_tape 0x20, constant_tape 0x42)]
                (sample_users, [Awaiting_find, Awaiting_find]) [0, 1, 1, 0]
              = (sample_users(user_id sample_user \<mapsto> uA),
                 [Returned (Inr uA), Returned (Inr uB)])"
    "run_requests demo_lib None (user_id sample_user)
                [(constant_tape 0x10, constant_tape 0x41), (constant_tape 0x20, constant_tape 0x42)]
                (sample_users, [Awaiting_find, Awaiting_find]) [0, 0, 1, 1]
              = (sample_users(user_id sample_user \<mapsto> uA),
                 [Returned (Inr uA), Returned (Inr uA)])"
    using inst [where u = sample_user and db = sample_users and env = None
        and hA = "constant_tape 0x41" and gA = "constant_tape 0x10" and pkA = "''PA''"
        and skA = "''SA''" and aA = aA and hB = "constant_tape 0x42" and gB = "constant_tape 0x20"
        and pkB = "''PB''" and skB = "''SB''" and aB = aB]
      n st kA aA kB aB
    unfolding Let_def uA_def uB_def by blast+
  from fresh dec again keys stale runs
  have "let uA = sample_user\<lparr>publicKey := Some ''PA'',
                     privateKey := Some (key_blob_json (encryptedData aA) (iv aA))\<rparr>;
               uB = sample_user\<lparr>publicKey := Some ''PB'',
                        privateKey := Some (key_blob_json (encryptedData aB) (iv aB))\<rparr>;
               dbA = sample_users(user_id sample_user \<mapsto> uA);
               dbB = sample_users(user_id sample_user \<mapsto> uB);
               run = run_requests demo_lib None (user_id sample_user)
                       [(constant_tape 0x10, constant_tape 0x41),
                        (constant_tape 0x20, constant_tape 0x42)]
                       (sample_users, [Awaiting_find, Awaiting_find])
           in ensureUserKeys demo_lib None sample_users (Some sample_user)
                (constant_tape 0x10) (constant_tape 0x41) = Inr (dbA, uA)
            \<and> decryptAES demo_lib (encryptedData aA) (iv aA) (AES_SECRET None) (constant_tape 0)
              = Inr ''SA''
            \<and> ensureUserKeys demo_lib None dbA (User_findById dbA (user_id sample_user))
                (constant_tape 0x20) (constant_tape 0x42) = Inr (dbA, uA)
            \<and> truthy (publicKey uA) \<and> truthy (privateKey uA)
            \<and> ensureUserKeys demo_lib None dbB (Some uA)
                (constant_tape 0x20) (constant_tape 0x42) = Inr (dbB, uA)
            \<and> run [0, 1, 0, 1] = (dbB, [Returned (Inr uA), Returned (Inr uB)])
            \<and> run [0, 1, 1, 0] = (dbA, [Returned (Inr uA), Returned (Inr uB)])
            \<and> run [0, 0, 1, 1] = (dbA, [Returned (Inr uA), Returned (Inr uA)])"
    unfolding Let_def uA_def uB_def by blast
  with aA aB have "\<exists>aA aB.
         encryptAES demo_lib ''SA'' (AES_SECRET None) (constant_tape 0x10) = Inr aA
       \<and> encryptAES demo_lib ''SB'' (AES_SECRET None) (constant_tape 0x20) = Inr aB
       \<and> (let uA = sample_user\<lparr>publicKey := Some ''PA'',
                            privateKey := Some (key_blob_json (encryptedData aA) (iv aA))\<rparr>;
               uB = sample_user\<lparr>publicKey := Some ''PB'',
                        privateKey := Some (key_blob_json (encryptedData aB) (iv aB))\<rparr>;
               dbA = sample_users(user_id sample_user \<mapsto> uA);
               dbB = sample_users(user_id sample_user \<mapsto> uB);
               run = run_requests demo_lib None (user_id sample_user)
                       [(constant_tape 0x10, constant_tape 0x41),
                        (constant_tape 0x20, constant_tape 0x42)]
                       (sample_users, [Awaiting_find, Awaiting_find])
           in ensureUserKeys demo_lib None sample_users (Some sample_user)
                (constant_tape 0x10) (constant_tape 0x41) = Inr (dbA, uA)
            \<and> decryptAES demo_lib (encryptedData aA) (iv aA) (AES_SECRET None) (constant_tape 0)
              = Inr ''SA''
            \<and> ensureUserKeys demo_lib None dbA (User_findById dbA (user_id sample_user))
                (constant_tape 0x20) (constant_tape 0x42) = Inr (dbA, uA)
            \<and> truthy (publicKey uA) \<and> truthy (privateKey uA)
            \<and> ensureUserKeys demo_lib None dbB (Some uA)
                (constant_tape 0x20) (constant_tape 0x42) = Inr (dbB, uA)
            \<and> run [0, 1, 0, 1] = (dbB, [Returned (Inr uA), Returned (Inr uB)])
            \<and> run [0, 1, 1, 0] = (dbA, [Returned (Inr uA), Returned (Inr uB)])
            \<and> run [0, 0, 1, 1] = (dbA, [Returned (Inr uA), Returned (Inr uA)]))"
    by blast
  with n st kA kB show ?thesis
    using demo_lib_cjs_ok demo_lib_rsa_ok by blast
qed

text \<open>
  The part of C4 about calls in flight together does not hold: nothing serialises them.
  Two first-time requests for the same user that both read the document before either
  has saved (schedule 0, 1, 0, 1) each generate a pair and save it. After the first save
  the store holds the public key of request 0; the second save replaces it, and request 0
  has returned a public key that is no longer the persisted one.
\<close>

theorem concurrent_ensureUserKeys_counterexample:
  "map_option publicKey
     (fst (run_requests demo_lib None ''u1'' sample_tapes
             (sample_users, [Awaiting_find, Awaiting_find]) [0, 1, 0]) ''u1'')
     = Some (Some ''PA'')
   \<and> map_option publicKey
     (fst (run_requests demo_lib None ''u1'' sample_tapes
             (sample_users, [Awaiting_find, Awaiting_find]) [0, 1, 0, 1]) ''u1'')
     = Some (Some ''PB'')
   \<and> (case snd (run_requests demo_lib None ''u1'' sample_tapes
                   (sample_users, [Awaiting_find, Awaiting_find]) [0, 1, 0, 1]) ! 0 of
        Returned (Inr a) \<Rightarrow> publicKey a = Some ''PA''
      | _ \<Rightarrow> False)
   \<and> (case snd (run_requests demo_lib None ''u1'' sample_tapes
                   (sample_users, [Awaiting_find, Awaiting_find]) [0, 1, 0, 1]) ! 1 of
        Returned (Inr b) \<Rightarrow>
          fst (run_requests demo_lib None ''u1'' sample_tapes
                 (sample_users, [Awaiting_find, Awaiting_find]) [0, 1, 0, 1]) ''u1'' = Some b
      | _ \<Rightarrow> False)"
proof -
  obtain a where a: "encryptAES demo_lib ''SA'' (AES_SECRET None) (constant_tape 0x10) = Inr a"
    using demo_encryptAES_returns [of "CHR ''A''"] by auto
  obtain b where b: "encryptAES demo_lib ''SB'' (AES_SECRET None) (constant_tape 0x20) = Inr b"
    using demo_encryptAES_returns [of "CHR ''B''"] by auto
  have kA: "generateRSAKeyPair demo_lib (constant_tape 0x41) = Inr (''PA'', ''SA'')"
    by (simp add: generateRSAKeyPair_def demo_lib_def demo_keygen_def constant_tape_def
        char_of_byte_A)
  have kB: "generateRSAKeyPair demo_lib (constant_tape 0x42) = Inr (''PB'', ''SB'')"
    by (simp add: generateRSAKeyPair_def demo_lib_def demo_keygen_def constant_tape_def
        char_of_byte_B)
  show ?thesis
    by (simp add: request_step_def User_findById_def ensureUserKeys_def truthy_def user_save_def
        sample_tapes_def sample_users_def sample_user_def kA kB a b Let_def)
qed

section \<open>Verification certificates\<close>

lemma join_lines_embeds:
  "l \<in> set ls \<Longrightarrow> \<exists>pre post. join_lines ls = pre @ l @ post"
proof (induction ls rule: join_lines.induct)
  case 1
  then show ?case by simp
next
  case (2 x)
  then show ?case by (metis append_Nil append_Nil2 empty_iff empty_set join_lines.simps(2) set_ConsD)
next
  case (3 x y ys)
  show ?case
  proof (cases "l = x")
    case True
    then show ?thesis by (metis append_Nil join_lines.simps(3))
  next
    case False
    with 3 obtain pre post where "join_lines (y # ys) = pre @ l @ post" by auto
    then have "join_lines (x # y # ys) = (x @ [CHR 0x0A] @ pre) @ l @ post" by simp
    then show ?thesis by blast
  qed
qed

lemma sha512_suffix:
  assumes "sha512_ok L"
  shows "length (take 16 (sha512_hex L b)) = 16"
    and "list_all is_hex_digit (take 16 (sha512_hex L b))"
proof -
  from assms have len: "length (sha512_hex L b) = 128"
    and hex: "list_all is_hex_digit (sha512_hex L b)"
    by (simp_all add: sha512_ok_def)
  from len show "length (take 16 (sha512_hex L b)) = 16" by simp
  from hex show "list_all is_hex_digit (take 16 (sha512_hex L b))"
    by (auto simp: list_all_iff dest: in_set_takeD)
qed

text \<open>
  C8 (issuing a certificate). For every application with an application number, every
  application id, student id and timestamp: the code issued by the status route is
  \<^verbatim>\<open>SVS-VERIFIED-\<close>, the application number, a hyphen and a suffix; the suffix is the
  first 16 hexadecimal digits of the SHA-512 digest of the record of exactly application
  id, student id and timestamp; and the certificate text carries the line
  \<^verbatim>\<open>Verification Code: \<close> with the same code, suffix included.
\<close>

theorem issued_code_shape:
  assumes "sha512_ok L" and "applicationNumber a = Some n"
  shows "(let suffix = take 16 (sha512_hex L (buffer_from_utf8 L
                         (certificate_record_json (app_id a) (userId a) now)));
              c = issue_certificate L env_frontend_url a now
          in length suffix = 16 \<and> list_all is_hex_digit suffix
           \<and> verificationCode_of c = ''SVS-VERIFIED-'' @ n @ ''-'' @ suffix
           \<and> (\<exists>pre post. certificateText_of c
                  = pre @ (''Verification Code: '' @ verificationCode_of c) @ post))"
proof -
  have "\<exists>pre post. certificateText_of (issue_certificate L env_frontend_url a now)
          = pre @ (''Verification Code: ''
                   @ verificationCode_of (issue_certificate L env_frontend_url a now)) @ post"
    unfolding issue_certificate_def generateVerifiedCertificateData_def Let_def
    by (simp only: certificate.simps) (rule join_lines_embeds, simp)
  then show ?thesis
    using sha512_suffix [OF assms(1)] assms(2)
    by (simp add: Let_def issue_certificate_def generateVerifiedCertificateData_def
        payload_json_def certificate_record_json_def template_def)
qed


lemma demo_suffix_1:
  "take 16 (sha512_hex demo_lib (buffer_from_utf8 demo_lib
      (certificate_record_json ''64b0c0ffee'' ''5e0f00d'' 1700000000000)))
   = ''7d30303030303030''"
  by (simp add: demo_lib_def demo_sha512_hex_def latin1_bytes_def certificate_record_json_def
      json_member_def json_quote_def json_escape_char_def dec_digits.simps hexdigit_def
      hex_of_bytes_def byte_of_char_def)

theorem issued_code_shape_witness:
  "sha512_ok demo_lib
   \<and> applicationNumber sample_application = Some ''APP2026-ABCXYZ''
   \<and> verificationCode_of (issue_certificate demo_lib None sample_application 1700000000000)
     = ''SVS-VERIFIED-APP2026-ABCXYZ-7d30303030303030''
   \<and> length ''7d30303030303030'' = 16 \<and> list_all is_hex_digit ''7d30303030303030''"
proof -
  have n: "applicationNumber sample_application = Some ''APP2026-ABCXYZ''"
    by (simp add: sample_application_def)
  have i: "app_id sample_application = ''64b0c0ffee''" "userId sample_application = ''5e0f00d''"
    by (simp_all add: sample_application_def)
  show ?thesis
    using issued_code_shape [OF demo_lib_sha512_ok n, of 1700000000000 None]
    by (simp add: Let_def i n demo_suffix_1 demo_lib_sha512_ok)
qed

section \<open>Re-verification\<close>

lemma save_find_id:
  assumes "Application_findById db i = Some a" and "app_id b = i"
  shows "Application_findById (application_save db b) i = Some b"
  using assms
  by (induction db) (auto simp: Application_findById_def application_save_def)

lemma set_application_save:
  "x \<in> set (application_save db b) \<Longrightarrow> x = b \<or> (x \<in> set db \<and> app_id x \<noteq> app_id b)"
  by (auto simp: application_save_def)

lemma saved_in_set:
  assumes "Application_findById db i = Some a" and "app_id b = i"
  shows "b \<in> set (application_save db b)"
proof -
  from assms(1) have "a \<in> set db" and "app_id a = i"
    by (auto simp: Application_findById_def find_Some_iff)
  with assms(2) show ?thesis
    by (force simp: application_save_def)
qed

lemma findById_id:
  "Application_findById db i = Some a \<Longrightarrow> app_id a = i"
  by (auto simp: Application_findById_def find_Some_iff)

lemma put_verified:
  assumes "Application_findById db i = Some a"
  obtains b where "snd (put_application_status L env db i ''verified'' comments reviewer now)
                   = application_save db b"
    and "app_id b = i"
    and "verifiedVerificationCode b = Some (verificationCode_of (issue_certificate L env a now))"
    and "verificationCode b = verificationCode a"
    and "status b = ''verified''"
    and "applicationNumber b = applicationNumber a"
  using assms findById_id [OF assms]
  by (cases "truthy comments") (simp_all add: put_application_status_def Let_def)


text \<open>
  C9, as the code has it. Verifying an application stores the new code in the one field
  \<^verbatim>\<open>verifiedVerificationCode\<close>, in place of the previous one. After the request the
  new code is the advertised one and the public lookup resolves it; a different, older
  code resolves no more, unless some other field still holds it (the application's
  \<^verbatim>\<open>verificationCode\<close>, or a field of another application).
\<close>

theorem reverification_replaces_code:
  assumes "Application_findById db i = Some a"
  shows "(let c = verificationCode_of (issue_certificate L env a now);
              db' = snd (put_application_status L env db i ''verified'' comments reviewer now)
          in advertised_code db' i = Some c
           \<and> (\<exists>b. Application_findOne_code db' c = Some b
                  \<and> (verificationCode b = Some c \<or> verifiedVerificationCode b = Some c))
           \<and> (\<forall>old. old \<noteq> c \<and> verificationCode a \<noteq> Some old
                  \<and> (\<forall>x\<in>set db. app_id x \<noteq> i \<longrightarrow>
                        verificationCode x \<noteq> Some old \<and> verifiedVerificationCode x \<noteq> Some old)
                  \<longrightarrow> get_verify_code db' old = Invalid_verification_code))"
proof -
  define c where "c = verificationCode_of (issue_certificate L env a now)"
  define db' where "db' = snd (put_application_status L env db i ''verified'' comments reviewer now)"
  from assms obtain b where db'_eq: "db' = application_save db b" and id: "app_id b = i"
    and vv: "verifiedVerificationCode b = Some c" and vc: "verificationCode b = verificationCode a"
    unfolding c_def db'_def by (rule put_verified)
  have adv: "advertised_code db' i = Some c"
    using save_find_id [OF assms id] by (simp add: advertised_code_def db'_eq vv)
  have "b \<in> set db'"
    using saved_in_set [OF assms id] by (simp add: db'_eq)
  with vv have "\<exists>x\<in>set db'. verificationCode x = Some c \<or> verifiedVerificationCode x = Some c"
    by blast
  then have found: "\<exists>y. Application_findOne_code db' c = Some y
      \<and> (verificationCode y = Some c \<or> verifiedVerificationCode y = Some c)"
    by (cases "Application_findOne_code db' c")
       (auto simp: Application_findOne_code_def find_None_iff find_Some_iff)
  have gone: "get_verify_code db' old = Invalid_verification_code"
    if "old \<noteq> c" and "verificationCode a \<noteq> Some old"
      and "\<forall>x\<in>set db. app_id x \<noteq> i \<longrightarrow>
             verificationCode x \<noteq> Some old \<and> verifiedVerificationCode x \<noteq> Some old"
    for old
  proof -
    have "\<not> (verificationCode x = Some old \<or> verifiedVerificationCode x = Some old)"
      if "x \<in> set db'" for x
      using set_application_save [OF that [unfolded db'_eq]] \<open>old \<noteq> c\<close>
        \<open>verificationCode a \<noteq> Some old\<close>
        \<open>\<forall>x\<in>set db. app_id x \<noteq> i \<longrightarrow>
             verificationCode x \<noteq> Some old \<and> verifiedVerificationCode x \<noteq> Some old\<close>
      by (auto simp: vv vc id)
    then have "Application_findOne_code db' old = None"
      by (simp add: Application_findOne_code_def find_None_iff)
    then show ?thesis
      by (simp add: get_verify_code_def)
  qed
  from adv found gone show ?thesis
    unfolding Let_def c_def [symmetric] db'_def [symmetric] by blast
qed

lemma demo_suffix_2:
  "take 16 (sha512_hex demo_lib (buffer_from_utf8 demo_lib
      (certificate_record_json ''64b0c0ffee'' ''5e0f00d'' 1700000000001)))
   = ''7d31303030303030''"
  by (simp add: demo_lib_def demo_sha512_hex_def latin1_bytes_def certificate_record_json_def
      json_member_def json_quote_def json_escape_char_def dec_digits.simps hexdigit_def
      hex_of_bytes_def byte_of_char_def)

text \<open>
  C9 as stated does not hold: a code, once issued, does not stay valid for lookups. The
  sample application is verified at one time and again a millisecond later: the first
  code resolves after the first request, the second code is advertised after the second,
  and the first code is then an invalid verification code.
\<close>

theorem old_code_counterexample:
  "get_verify_code
     (snd (put_application_status demo_lib None [sample_application] ''64b0c0ffee''
             ''verified'' None ''officer'' 1700000000000))
     ''SVS-VERIFIED-APP2026-ABCXYZ-7d30303030303030''
     = Application_found (Some ''APP2026-ABCXYZ'') ''verified'' None True
   \<and> advertised_code
     (snd (put_application_status demo_lib None
             (snd (put_application_status demo_lib None [sample_application] ''64b0c0ffee''
                     ''verified'' None ''officer'' 1700000000000))
             ''64b0c0ffee'' ''verified'' None ''officer'' 1700000000001))
     ''64b0c0ffee''
     = Some ''SVS-VERIFIED-APP2026-ABCXYZ-7d31303030303030''
   \<and> get_verify_code
     (snd (put_application_status demo_lib None
             (snd (put_application_status demo_lib None [sample_application] ''64b0c0ffee''
                     ''verified'' None ''officer'' 1700000000000))
             ''64b0c0ffee'' ''verified'' None ''officer'' 1700000000001))
     ''SVS-VERIFIED-APP2026-ABCXYZ-7d30303030303030''
     = Invalid_verification_code"
  using demo_suffix_1 demo_suffix_2
  by (simp add: put_application_status_def Application_findById_def application_save_def
      issue_certificate_def generateVerifiedCertificateData_def Let_def payload_json_def
      certificate_record_json_def template_def truthy_def get_verify_code_def
      Application_findOne_code_def advertised_code_def sample_application_def)

theorem reverification_replaces_code_witness:
  "Application_findById [sample_verified_application, sample_other_application] ''64b0c0ffee''
     = Some sample_verified_application
   \<and> ''SVS-VERIFIED-APP2026-ABCXYZ-7d30303030303030''
     \<noteq> verificationCode_of
         (issue_certificate demo_lib None sample_verified_application 1700000000001)
   \<and> verificationCode sample_verified_application
     \<noteq> Some ''SVS-VERIFIED-APP2026-ABCXYZ-7d30303030303030''
   \<and> app_id sample_other_application \<noteq> ''64b0c0ffee''
   \<and> verificationCode sample_other_application
     \<noteq> Some ''SVS-VERIFIED-APP2026-ABCXYZ-7d30303030303030''
   \<and> verifiedVerificationCode sample_other_application
     \<noteq> Some ''SVS-VERIFIED-APP2026-ABCXYZ-7d30303030303030''
   \<and> advertised_code
       (snd (put_application_status demo_lib None
               [sample_verified_application, sample_other_application] ''64b0c0ffee''
               ''verified'' None ''officer'' 1700000000001))
       ''64b0c0ffee''
     = Some ''SVS-VERIFIED-APP2026-ABCXYZ-7d31303030303030''
   \<and> get_verify_code
       (snd (put_application_status demo_lib None
               [sample_verified_application, sample_other_application] ''64b0c0ffee''
               ''verified'' None ''officer'' 1700000000001))
       ''SVS-VERIFIED-APP2026-ABCXYZ-7d30303030303030''
     = Invalid_verification_code"
proof -
  let ?db = "[sample_verified_application, sample_other_application]"
  let ?old = "''SVS-VERIFIED-APP2026-ABCXYZ-7d30303030303030''"
  have f: "Application_findById ?db ''64b0c0ffee'' = Some sample_verified_application"
    by (simp add: Application_findById_def sample_verified_application_def
        sample_application_def)
  have c: "verificationCode_of
             (issue_certificate demo_lib None sample_verified_application 1700000000001)
           = ''SVS-VERIFIED-APP2026-ABCXYZ-7d31303030303030''"
    using demo_suffix_2
    by (simp add: issue_certificate_def generateVerifiedCertificateData_def Let_def
        payload_json_def certificate_record_json_def template_def
        sample_verified_application_def sample_application_def)
  have other: "app_id sample_other_application \<noteq> ''64b0c0ffee''"
    "verificationCode sample_other_application \<noteq> Some ?old"
    "verifiedVerificationCode sample_other_application \<noteq> Some ?old"
    by (simp_all add: sample_other_application_def)
  have others: "\<forall>x\<in>set ?db. app_id x \<noteq> ''64b0c0ffee'' \<longrightarrow>
          verificationCode x \<noteq> Some ?old \<and> verifiedVerificationCode x \<noteq> Some ?old"
    using other
    by (simp add: sample_verified_application_def sample_application_def)
  have ne: "?old \<noteq> verificationCode_of
              (issue_certificate demo_lib None sample_verified_application 1700000000001)"
    by (simp add: c)
  have own: "verificationCode sample_verified_application \<noteq> Some ?old"
    by (simp add: sample_verified_application_def sample_application_def)
  from reverification_replaces_code [OF f, of demo_lib None 1700000000001 None "''officer''"]
  have "advertised_code
          (snd (put_application_status demo_lib None ?db ''64b0c0ffee'' ''verified'' None
                  ''officer'' 1700000000001)) ''64b0c0ffee''
        = Some (verificationCode_of
                  (issue_certificate demo_lib None sample_verified_application 1700000000001))"
    and "get_verify_code
          (snd (put_application_status demo_lib None ?db ''64b0c0ffee'' ''verified'' None
                  ''officer'' 1700000000001)) ?old
        = Invalid_verification_code"
    using ne own others unfolding Let_def by blast+
  with f ne own other show ?thesis
    by (simp add: c)
qed

end
